theory Spec2Isabelle
  imports Main "HOL-Library.Sublist" "HOL-Library.Multiset"
begin

section \<open>Virtual machine management example: the data\<close>

text \<open>
  The script \<^verbatim>\<open>vm/example.py\<close> drives a remote resource manager through its SDK
  clients. The embedding keeps what the script itself computes (names, request bodies,
  the data-disk list, the disk size) and records every call it makes to a client, and
  every \<^verbatim>\<open>.result()\<close> it waits on, as an event of a trace. What the service answers
  is a parameter of the run.
\<close>

subsection \<open>Module constants\<close>

text \<open>
  \<^verbatim>\<open>'{}'.format(postfix)\<close> renders a Python int in decimal.
\<close>

definition digit_char :: "nat \<Rightarrow> char" where
  "digit_char d = ''0123456789'' ! (d mod 10)"

function digits :: "nat \<Rightarrow> string" where
  "digits n = (if n < 10 then [digit_char n] else digits (n div 10) @ [digit_char (n mod 10)])"
  by pat_completeness auto
termination
  by (relation "measure id") auto

declare digits.simps [simp del]

definition format_int :: "int \<Rightarrow> string" where
  "format_int i = (if i < 0 then CHR ''-'' # digits (nat (- i)) else digits (nat i))"

text \<open>
  Three values are drawn when the module is loaded: \<^verbatim>\<open>random.randint(100, 500)\<close>,
  the haikunator name and the uuid. Every module constant is a function of them.
\<close>

record draws =
  postfix :: int
  haiku :: string
  uuid4 :: string

definition randint_ok :: "draws \<Rightarrow> bool" where
  "randint_ok g = (100 \<le> postfix g \<and> postfix g \<le> 500)"

definition GROUP_NAME :: "draws \<Rightarrow> string" where
  "GROUP_NAME g = ''azure-sample-group-virtual-machines'' @ format_int (postfix g)"

definition VNET_NAME :: "draws \<Rightarrow> string" where
  "VNET_NAME g = ''azure-sample-vnet'' @ format_int (postfix g)"

definition SUBNET_NAME :: "draws \<Rightarrow> string" where
  "SUBNET_NAME g = ''azure-sample-subnet'' @ format_int (postfix g)"

definition OS_DISK_NAME :: "draws \<Rightarrow> string" where
  "OS_DISK_NAME g = ''azure-sample-osdisk'' @ format_int (postfix g)"

definition STORAGE_ACCOUNT_NAME :: "draws \<Rightarrow> string" where
  "STORAGE_ACCOUNT_NAME g = haiku g"

definition IP_CONFIG_NAME :: "draws \<Rightarrow> string" where
  "IP_CONFIG_NAME g = ''azure-sample-ip-config'' @ format_int (postfix g)"

definition NIC_NAME :: "draws \<Rightarrow> string" where
  "NIC_NAME g = ''azure-sample-nic'' @ format_int (postfix g)"

definition USERNAME :: string where
  "USERNAME = ''userlogin''"

definition PASSWORD :: "draws \<Rightarrow> string" where
  "PASSWORD g = uuid4 g"

definition VM_NAME :: "draws \<Rightarrow> string" where
  "VM_NAME g = ''VmName'' @ format_int (postfix g)"

record image_reference =
  publisher :: string
  offer :: string
  sku :: string
  version :: string

definition VM_REFERENCE :: "string \<rightharpoonup> image_reference" where
  "VM_REFERENCE =
     [''linux'' \<mapsto> \<lparr>publisher = ''Canonical'', offer = ''UbuntuServer'',
                      sku = ''16.04-LTS'', version = ''latest''\<rparr>,
      ''windows'' \<mapsto> \<lparr>publisher = ''MicrosoftWindowsServer'', offer = ''WindowsServer'',
                        sku = ''2016-Datacenter'', version = ''latest''\<rparr>]"

subsection \<open>Resources as the SDK returns them\<close>

datatype disk_create_option = Empty | Attach | FromImage

text \<open>
  An entry of \<^verbatim>\<open>storage_profile.data_disks\<close>. The dictionary the script appends and
  the objects the service returns are read through the same four attributes.
\<close>

record data_disk =
  lun :: int
  dd_name :: string
  create_option :: disk_create_option
  managed_disk_id :: string

record storage_profile =
  os_disk_name :: string
  data_disks :: "data_disk list"

record virtual_machine =
  vm_name :: string
  vm_storage_profile :: storage_profile

text \<open>A managed disk; the service may leave \<^verbatim>\<open>disk_size_gb\<close> out (Python's None).\<close>

record disk =
  disk_id :: string
  disk_name :: string
  disk_size_gb :: "int option"

record nic =
  nic_id :: string

record subnet =
  subnet_id :: string

text \<open>The configuration is the dictionary read from the JSON file.\<close>

type_synonym config = "string \<rightharpoonup> string"

subsection \<open>Errors\<close>

datatype exn = CloudError | KeyError | TypeError | OtherError

subsection \<open>Request bodies\<close>

record vm_parameters =
  vp_location :: string
  computer_name :: string
  admin_username :: string
  admin_password :: string
  vm_size :: string
  image :: image_reference
  network_interfaces :: "string list"

definition create_vm_parameters :: "draws \<Rightarrow> string \<Rightarrow> image_reference \<Rightarrow> string \<Rightarrow> vm_parameters" where
  "create_vm_parameters g nic_id' vm_reference LOCATION =
     \<lparr>vp_location = LOCATION,
      computer_name = VM_NAME g,
      admin_username = USERNAME,
      admin_password = PASSWORD g,
      vm_size = ''Standard_DS1_v2'',
      image = \<lparr>publisher = publisher vm_reference, offer = offer vm_reference,
               sku = sku vm_reference, version = version vm_reference\<rparr>,
      network_interfaces = [nic_id']\<rparr>"

subsection \<open>The data-disk list and the OS-disk size\<close>

text \<open>
  Lines 187-194: the descriptor of the new disk is appended to the list of the machine
  that \<^verbatim>\<open>virtual_machines.get\<close> returned.
\<close>

definition attach_descriptor :: "disk \<Rightarrow> data_disk" where
  "attach_descriptor d =
     \<lparr>lun = 12, dd_name = ''mydatadisk1'', create_option = Attach, managed_disk_id = disk_id d\<rparr>"

definition set_data_disks :: "data_disk list \<Rightarrow> virtual_machine \<Rightarrow> virtual_machine" where
  "set_data_disks ds vm = vm\<lparr>vm_storage_profile := (vm_storage_profile vm)\<lparr>data_disks := ds\<rparr>\<rparr>"

definition attach_data_disk :: "disk \<Rightarrow> virtual_machine \<Rightarrow> virtual_machine" where
  "attach_data_disk d vm =
     set_data_disks (data_disks (vm_storage_profile vm) @ [attach_descriptor d]) vm"

text \<open>
  Lines 204-205: \<^verbatim>\<open>data_disks[:] = [disk for disk in data_disks if disk.name != 'mydatadisk1']\<close>.
\<close>

definition detach_list :: "data_disk list \<Rightarrow> data_disk list" where
  "detach_list ds = [d \<leftarrow> ds. dd_name d \<noteq> ''mydatadisk1'']"

definition detach_data_disk :: "virtual_machine \<Rightarrow> virtual_machine" where
  "detach_data_disk vm = set_data_disks (detach_list (data_disks (vm_storage_profile vm))) vm"

text \<open>
  Lines 223-229. \<^verbatim>\<open>not x\<close> holds of None and of 0; adding 10 to None would
  raise TypeError.
\<close>

definition falsy :: "int option \<Rightarrow> bool" where
  "falsy v = (case v of None \<Rightarrow> True | Some n \<Rightarrow> n = 0)"

definition iadd :: "int option \<Rightarrow> int \<Rightarrow> exn + int" where
  "iadd v k = (case v of None \<Rightarrow> Inl TypeError | Some n \<Rightarrow> Inr (n + k))"

definition resize_os_disk :: "disk \<Rightarrow> exn + disk" where
  "resize_os_disk os_disk =
     (let os_disk1 = (if falsy (disk_size_gb os_disk)
                      then os_disk\<lparr>disk_size_gb := Some 30\<rparr> else os_disk)
      in case iadd (disk_size_gb os_disk1) 10 of
           Inl e \<Rightarrow> Inl e
         | Inr s \<Rightarrow> Inr (os_disk1\<lparr>disk_size_gb := Some s\<rparr>))"

section \<open>Calls, traces and the service\<close>

datatype vm_body =
    Parameters vm_parameters
  | Tags string "(string \<times> string) list"
  | Machine virtual_machine

datatype disk_body =
    NewDisk string int disk_create_option
  | DiskObject disk

text \<open>
  One constructor for each client method the script calls, with the arguments the
  script passes: the resource group first, then the resource name, then the body.
\<close>

datatype request =
    GetCloudFromMetadataEndpoint string
  | ResourceGroupsCreateOrUpdate string string
  | StorageAccountsBeginCreate string string string
  | VirtualNetworksBeginCreateOrUpdate string string string
  | SubnetsBeginCreateOrUpdate string string string
  | NetworkInterfacesBeginCreateOrUpdate string string string string string
  | VirtualMachinesBeginCreateOrUpdate string string vm_body
  | DisksBeginCreateOrUpdate string string disk_body
  | VirtualMachinesGet string string
  | VirtualMachinesBeginDeallocate string string
  | DisksGet string string
  | VirtualMachinesBeginStart string string
  | VirtualMachinesBeginRestart string string
  | VirtualMachinesBeginPowerOff string string
  | VirtualMachinesListAll
  | VirtualMachinesList string
  | VirtualMachinesBeginDelete string string
  | ResourceGroupsBeginDelete string

text \<open>
  \<open>Call rq\<close>: the script calls the client method. \<open>Await rq\<close>: the script calls
  \<^verbatim>\<open>.result()\<close> on the poller that the call \<open>rq\<close> returned.
\<close>

datatype event = Call request | Await request

text \<open>
  The service: which calls raise, and what the calls that return a value return.
  A run makes each call at most once, so one answer for each is all a run can see.
\<close>

record env =
  raises :: "event \<Rightarrow> exn option"
  subnet_info :: subnet
  created_nic :: nic
  created_disk :: disk
  got_vm :: virtual_machine
  updated_vm :: virtual_machine
  got_disk :: disk

text \<open>A computation returns a value or raises, and leaves the events it caused.\<close>

type_synonym 'a prog = "(exn + 'a) \<times> event list"

definition ret :: "'a \<Rightarrow> 'a prog" where
  "ret v = (Inr v, [])"

definition lift :: "exn + 'a \<Rightarrow> 'a prog" where
  "lift r = (r, [])"

definition bnd :: "'a prog \<Rightarrow> ('a \<Rightarrow> 'b prog) \<Rightarrow> 'b prog" where
  "bnd m f =
     (case m of
        (Inl e, tr) \<Rightarrow> (Inl e, tr)
      | (Inr v, tr) \<Rightarrow> (case f v of (r, tr') \<Rightarrow> (r, tr @ tr')))"

definition perform :: "env \<Rightarrow> event \<Rightarrow> 'a \<Rightarrow> 'a prog" where
  "perform s ev v = (case raises s ev of Some e \<Rightarrow> Inl e | None \<Rightarrow> Inr v, [ev])"

text \<open>A \<^verbatim>\<open>begin_*\<close> call returns its poller, which is identified with the request.\<close>

definition begin_op :: "env \<Rightarrow> request \<Rightarrow> request prog" where
  "begin_op s rq = perform s (Call rq) rq"

definition result :: "env \<Rightarrow> request \<Rightarrow> 'a \<Rightarrow> 'a prog" where
  "result s poller v = perform s (Await poller) v"

definition subscript :: "('k \<rightharpoonup> 'v) \<Rightarrow> 'k \<Rightarrow> 'v prog" where
  "subscript d k = (case d k of None \<Rightarrow> (Inl KeyError, []) | Some v \<Rightarrow> ret v)"

section \<open>The script\<close>

definition create_nic :: "env \<Rightarrow> draws \<Rightarrow> string \<Rightarrow> nic prog" where
  "create_nic s g LOCATION =
     bnd (begin_op s (VirtualNetworksBeginCreateOrUpdate (GROUP_NAME g) (VNET_NAME g) LOCATION))
       (\<lambda>async_vnet_creation.
     bnd (result s async_vnet_creation ()) (\<lambda>_.
     bnd (begin_op s (SubnetsBeginCreateOrUpdate (GROUP_NAME g) (VNET_NAME g) (SUBNET_NAME g)))
       (\<lambda>async_subnet_creation.
     bnd (result s async_subnet_creation (subnet_info s)) (\<lambda>subnet_info'.
     bnd (begin_op s (NetworkInterfacesBeginCreateOrUpdate (GROUP_NAME g) (NIC_NAME g) LOCATION
            (IP_CONFIG_NAME g) (subnet_id subnet_info')))
       (\<lambda>async_nic_creation.
     result s async_nic_creation (created_nic s))))))"

text \<open>The body of the \<^verbatim>\<open>try\<close> statement, lines 119-278.\<close>

definition try_body :: "env \<Rightarrow> draws \<Rightarrow> string \<Rightarrow> unit prog" where
  "try_body s g LOCATION =
     bnd (begin_op s (StorageAccountsBeginCreate (GROUP_NAME g) (STORAGE_ACCOUNT_NAME g) LOCATION))
       (\<lambda>storage_async_operation.
     bnd (result s storage_async_operation ()) (\<lambda>_.
     bnd (create_nic s g LOCATION) (\<lambda>nic'.
     bnd (subscript VM_REFERENCE ''linux'') (\<lambda>linux.
     bnd (begin_op s (VirtualMachinesBeginCreateOrUpdate (GROUP_NAME g) (VM_NAME g)
            (Parameters (create_vm_parameters g (nic_id nic') linux LOCATION))))
       (\<lambda>async_vm_creation.
     bnd (result s async_vm_creation ()) (\<lambda>_.
     bnd (begin_op s (VirtualMachinesBeginCreateOrUpdate (GROUP_NAME g) (VM_NAME g)
            (Tags LOCATION [(''who-rocks'', ''python''), (''where'', ''on azure'')])))
       (\<lambda>async_vm_update.
     bnd (result s async_vm_update ()) (\<lambda>_.
     bnd (begin_op s (DisksBeginCreateOrUpdate (GROUP_NAME g) ''mydatadisk1''
            (NewDisk LOCATION 1 Empty)))
       (\<lambda>async_disk_creation.
     bnd (result s async_disk_creation (created_disk s)) (\<lambda>data_disk'.
     bnd (perform s (Call (VirtualMachinesGet (GROUP_NAME g) (VM_NAME g))) (got_vm s))
       (\<lambda>virtual_machine0.
     let virtual_machine1 = attach_data_disk data_disk' virtual_machine0 in
     bnd (begin_op s (VirtualMachinesBeginCreateOrUpdate (GROUP_NAME g)
            (vm_name virtual_machine1) (Machine virtual_machine1)))
       (\<lambda>async_disk_attach.
     bnd (result s async_disk_attach ()) (\<lambda>_.
     let virtual_machine2 = detach_data_disk virtual_machine1 in
     bnd (begin_op s (VirtualMachinesBeginCreateOrUpdate (GROUP_NAME g) (VM_NAME g)
            (Machine virtual_machine2)))
       (\<lambda>async_vm_update.
     bnd (result s async_vm_update (updated_vm s)) (\<lambda>virtual_machine3.
     bnd (begin_op s (VirtualMachinesBeginDeallocate (GROUP_NAME g) (VM_NAME g)))
       (\<lambda>async_vm_deallocate.
     bnd (result s async_vm_deallocate ()) (\<lambda>_.
     let os_disk_name' = os_disk_name (vm_storage_profile virtual_machine3) in
     bnd (perform s (Call (DisksGet (GROUP_NAME g) os_disk_name')) (got_disk s)) (\<lambda>os_disk0.
     bnd (lift (resize_os_disk os_disk0)) (\<lambda>os_disk.
     bnd (begin_op s (DisksBeginCreateOrUpdate (GROUP_NAME g) (disk_name os_disk)
            (DiskObject os_disk)))
       (\<lambda>async_disk_update.
     bnd (result s async_disk_update ()) (\<lambda>_.
     bnd (begin_op s (VirtualMachinesBeginStart (GROUP_NAME g) (VM_NAME g))) (\<lambda>async_vm_start.
     bnd (result s async_vm_start ()) (\<lambda>_.
     bnd (begin_op s (VirtualMachinesBeginRestart (GROUP_NAME g) (VM_NAME g)))
       (\<lambda>async_vm_restart.
     bnd (result s async_vm_restart ()) (\<lambda>_.
     bnd (begin_op s (VirtualMachinesBeginPowerOff (GROUP_NAME g) (VM_NAME g)))
       (\<lambda>async_vm_stop.
     bnd (result s async_vm_stop ()) (\<lambda>_.
     bnd (perform s (Call VirtualMachinesListAll) ()) (\<lambda>_.
     bnd (perform s (Call (VirtualMachinesList (GROUP_NAME g))) ()) (\<lambda>_.
     bnd (begin_op s (VirtualMachinesBeginDelete (GROUP_NAME g) (VM_NAME g)))
       (\<lambda>async_vm_delete.
     bnd (result s async_vm_delete ()) (\<lambda>_.
     bnd (subscript VM_REFERENCE ''windows'') (\<lambda>windows.
     bnd (begin_op s (VirtualMachinesBeginCreateOrUpdate (GROUP_NAME g) (VM_NAME g)
            (Parameters (create_vm_parameters g (nic_id nic') windows LOCATION))))
       (\<lambda>async_vm_creation.
     result s async_vm_creation ())))))))))))))))))))))))))))))))))"

text \<open>The \<^verbatim>\<open>finally\<close> block, lines 283-289.\<close>

definition finally_block :: "env \<Rightarrow> draws \<Rightarrow> unit prog" where
  "finally_block s g =
     bnd (begin_op s (ResourceGroupsBeginDelete (GROUP_NAME g))) (\<lambda>delete_async_operation.
     result s delete_async_operation ())"

text \<open>
  How \<^verbatim>\<open>run_example\<close> ends when it returns: after the \<^verbatim>\<open>else\<close> branch, or after
  the handler of \<^verbatim>\<open>except CloudError\<close>.
\<close>

datatype ending = AllCompleted | OperationFailed

text \<open>
  \<^verbatim>\<open>try ... except CloudError ... else ... finally\<close>: the handler and the else
  branch only print; the finally block runs in every case; an exception of the finally
  block replaces whatever was pending, and an exception that is no CloudError is raised
  again after the block.
\<close>

definition try_except_else_finally :: "unit prog \<Rightarrow> unit prog \<Rightarrow> ending prog" where
  "try_except_else_finally body final =
     (case body of (r, tr) \<Rightarrow>
        (case final of (rf, trf) \<Rightarrow>
           ((case rf of
               Inl e \<Rightarrow> Inl e
             | Inr _ \<Rightarrow>
                 (case r of
                    Inr _ \<Rightarrow> Inr AllCompleted
                  | Inl e \<Rightarrow> if e = CloudError then Inr OperationFailed else Inl e)),
            tr @ trf)))"

definition run_example :: "env \<Rightarrow> draws \<Rightarrow> config \<Rightarrow> ending prog" where
  "run_example s g config =
     bnd (subscript config ''resourceManagerUrl'') (\<lambda>url.
     bnd (perform s (Call (GetCloudFromMetadataEndpoint url)) ()) (\<lambda>mystack_cloud.
     bnd (subscript config ''subscriptionId'') (\<lambda>subscription_id.
     bnd (subscript config ''location'') (\<lambda>LOCATION.
     bnd (subscript config ''clientId'') (\<lambda>client_id.
     bnd (subscript config ''clientSecret'') (\<lambda>client_secret.
     bnd (subscript config ''tenantId'') (\<lambda>tenant_id.
     bnd (perform s (Call (ResourceGroupsCreateOrUpdate (GROUP_NAME g) LOCATION)) ()) (\<lambda>_.
     try_except_else_finally (try_body s g LOCATION) (finally_block s g)))))))))"

definition trace :: "'a prog \<Rightarrow> event list" where
  "trace p = snd p"

definition outcome :: "'a prog \<Rightarrow> exn + 'a" where
  "outcome p = fst p"

section \<open>The run as a script of events\<close>

text \<open>
  The script has no branch on what the service answers other than stopping at the first
  call that raises. So a run is told by the list of events it would cause if nothing
  raised, cut after the first event that raises.
\<close>

fun run_until :: "(event \<Rightarrow> exn option) \<Rightarrow> event list \<Rightarrow> event list" where
  "run_until r [] = []"
| "run_until r (ev # es) = ev # (if r ev = None then run_until r es else [])"

fun failure :: "(event \<Rightarrow> exn option) \<Rightarrow> event list \<Rightarrow> exn option" where
  "failure r [] = None"
| "failure r (ev # es) = (case r ev of Some e \<Rightarrow> Some e | None \<Rightarrow> failure r es)"

definition follows :: "'a prog \<Rightarrow> (event \<Rightarrow> exn option) \<Rightarrow> event list \<Rightarrow> 'a \<Rightarrow> bool" where
  "follows p r es w =
     (p = (case failure r es of Some e \<Rightarrow> Inl e | None \<Rightarrow> Inr w, run_until r es))"

definition nic_script :: "env \<Rightarrow> draws \<Rightarrow> string \<Rightarrow> event list" where
  "nic_script s g LOCATION =
     [Call (VirtualNetworksBeginCreateOrUpdate (GROUP_NAME g) (VNET_NAME g) LOCATION),
      Await (VirtualNetworksBeginCreateOrUpdate (GROUP_NAME g) (VNET_NAME g) LOCATION),
      Call (SubnetsBeginCreateOrUpdate (GROUP_NAME g) (VNET_NAME g) (SUBNET_NAME g)),
      Await (SubnetsBeginCreateOrUpdate (GROUP_NAME g) (VNET_NAME g) (SUBNET_NAME g)),
      Call (NetworkInterfacesBeginCreateOrUpdate (GROUP_NAME g) (NIC_NAME g) LOCATION
              (IP_CONFIG_NAME g) (subnet_id (subnet_info s))),
      Await (NetworkInterfacesBeginCreateOrUpdate (GROUP_NAME g) (NIC_NAME g) LOCATION
              (IP_CONFIG_NAME g) (subnet_id (subnet_info s)))]"

definition linux_image :: image_reference where
  "linux_image = \<lparr>publisher = ''Canonical'', offer = ''UbuntuServer'',
                      sku = ''16.04-LTS'', version = ''latest''\<rparr>"

definition windows_image :: image_reference where
  "windows_image = \<lparr>publisher = ''MicrosoftWindowsServer'', offer = ''WindowsServer'',
                        sku = ''2016-Datacenter'', version = ''latest''\<rparr>"

definition resized :: "disk \<Rightarrow> disk" where
  "resized d = d\<lparr>disk_size_gb :=
     Some ((case disk_size_gb d of None \<Rightarrow> 30 | Some n \<Rightarrow> if n = 0 then 30 else n) + 10)\<rparr>"

definition body_script :: "env \<Rightarrow> draws \<Rightarrow> string \<Rightarrow> event list" where
  "body_script s g LOCATION =
     [Call (StorageAccountsBeginCreate (GROUP_NAME g) (STORAGE_ACCOUNT_NAME g) LOCATION),
      Await (StorageAccountsBeginCreate (GROUP_NAME g) (STORAGE_ACCOUNT_NAME g) LOCATION)]
     @ nic_script s g LOCATION @
     [Call (VirtualMachinesBeginCreateOrUpdate (GROUP_NAME g) (VM_NAME g)
        (Parameters (create_vm_parameters g (nic_id (created_nic s)) linux_image LOCATION))),
      Await (VirtualMachinesBeginCreateOrUpdate (GROUP_NAME g) (VM_NAME g)
        (Parameters (create_vm_parameters g (nic_id (created_nic s)) linux_image LOCATION))),
      Call (VirtualMachinesBeginCreateOrUpdate (GROUP_NAME g) (VM_NAME g)
        (Tags LOCATION [(''who-rocks'', ''python''), (''where'', ''on azure'')])),
      Await (VirtualMachinesBeginCreateOrUpdate (GROUP_NAME g) (VM_NAME g)
        (Tags LOCATION [(''who-rocks'', ''python''), (''where'', ''on azure'')])),
      Call (DisksBeginCreateOrUpdate (GROUP_NAME g) ''mydatadisk1'' (NewDisk LOCATION 1 Empty)),
      Await (DisksBeginCreateOrUpdate (GROUP_NAME g) ''mydatadisk1'' (NewDisk LOCATION 1 Empty)),
      Call (VirtualMachinesGet (GROUP_NAME g) (VM_NAME g)),
      Call (VirtualMachinesBeginCreateOrUpdate (GROUP_NAME g)
        (vm_name (attach_data_disk (created_disk s) (got_vm s)))
        (Machine (attach_data_disk (created_disk s) (got_vm s)))),
      Await (VirtualMachinesBeginCreateOrUpdate (GROUP_NAME g)
        (vm_name (attach_data_disk (created_disk s) (got_vm s)))
        (Machine (attach_data_disk (created_disk s) (got_vm s)))),
      Call (VirtualMachinesBeginCreateOrUpdate (GROUP_NAME g) (VM_NAME g)
        (Machine (detach_data_disk (attach_data_disk (created_disk s) (got_vm s))))),
      Await (VirtualMachinesBeginCreateOrUpdate (GROUP_NAME g) (VM_NAME g)
        (Machine (detach_data_disk (attach_data_disk (created_disk s) (got_vm s))))),
      Call (VirtualMachinesBeginDeallocate (GROUP_NAME g) (VM_NAME g)),
      Await (VirtualMachinesBeginDeallocate (GROUP_NAME g) (VM_NAME g)),
      Call (DisksGet (GROUP_NAME g) (os_disk_name (vm_storage_profile (updated_vm s)))),
      Call (DisksBeginCreateOrUpdate (GROUP_NAME g) (disk_name (resized (got_disk s)))
        (DiskObject (resized (got_disk s)))),
      Await (DisksBeginCreateOrUpdate (GROUP_NAME g) (disk_name (resized (got_disk s)))
        (DiskObject (resized (got_disk s)))),
      Call (VirtualMachinesBeginStart (GROUP_NAME g) (VM_NAME g)),
      Await (VirtualMachinesBeginStart (GROUP_NAME g) (VM_NAME g)),
      Call (VirtualMachinesBeginRestart (GROUP_NAME g) (VM_NAME g)),
      Await (VirtualMachinesBeginRestart (GROUP_NAME g) (VM_NAME g)),
      Call (VirtualMachinesBeginPowerOff (GROUP_NAME g) (VM_NAME g)),
      Await (VirtualMachinesBeginPowerOff (GROUP_NAME g) (VM_NAME g)),
      Call VirtualMachinesListAll,
      Call (VirtualMachinesList (GROUP_NAME g)),
      Call (VirtualMachinesBeginDelete (GROUP_NAME g) (VM_NAME g)),
      Await (VirtualMachinesBeginDelete (GROUP_NAME g) (VM_NAME g)),
      Call (VirtualMachinesBeginCreateOrUpdate (GROUP_NAME g) (VM_NAME g)
        (Parameters (create_vm_parameters g (nic_id (created_nic s)) windows_image LOCATION))),
      Await (VirtualMachinesBeginCreateOrUpdate (GROUP_NAME g) (VM_NAME g)
        (Parameters (create_vm_parameters g (nic_id (created_nic s)) windows_image LOCATION)))]"

definition setup_script :: "string \<Rightarrow> draws \<Rightarrow> string \<Rightarrow> event list" where
  "setup_script url g LOCATION =
     [Call (GetCloudFromMetadataEndpoint url),
      Call (ResourceGroupsCreateOrUpdate (GROUP_NAME g) LOCATION)]"

definition final_script :: "draws \<Rightarrow> event list" where
  "final_script g =
     [Call (ResourceGroupsBeginDelete (GROUP_NAME g)),
      Await (ResourceGroupsBeginDelete (GROUP_NAME g))]"

section \<open>Observations on traces\<close>

text \<open>The calls that start a long-running operation and return a poller.\<close>

fun is_begin :: "request \<Rightarrow> bool" where
  "is_begin (GetCloudFromMetadataEndpoint _) = False"
| "is_begin (ResourceGroupsCreateOrUpdate _ _) = False"
| "is_begin (VirtualMachinesGet _ _) = False"
| "is_begin (DisksGet _ _) = False"
| "is_begin VirtualMachinesListAll = False"
| "is_begin (VirtualMachinesList _) = False"
| "is_begin _ = True"

fun is_group_create :: "event \<Rightarrow> bool" where
  "is_group_create (Call (ResourceGroupsCreateOrUpdate _ _)) = True"
| "is_group_create _ = False"

fun is_group_delete :: "event \<Rightarrow> bool" where
  "is_group_delete (Call (ResourceGroupsBeginDelete _)) = True"
| "is_group_delete _ = False"

fun is_nic_create :: "event \<Rightarrow> bool" where
  "is_nic_create (Call (NetworkInterfacesBeginCreateOrUpdate _ _ _ _ _)) = True"
| "is_nic_create _ = False"

text \<open>
  A trace in which every long-running operation is waited for: each call that starts
  one and returns is followed at once by the \<^verbatim>\<open>.result()\<close> on its poller.
\<close>

definition awaited :: "(event \<Rightarrow> exn option) \<Rightarrow> event list \<Rightarrow> bool" where
  "awaited r tr =
     (\<forall>pre rq post. tr = pre @ Call rq # post \<and> is_begin rq \<and> r (Call rq) = None
        \<longrightarrow> (\<exists>post'. post = Await rq # post'))"

text \<open>The same of a script, as a check that runs.\<close>

fun paired :: "event list \<Rightarrow> bool" where
  "paired [] = True"
| "paired (Call rq # Await rq' # es) = (is_begin rq \<and> rq' = rq \<and> paired es)"
| "paired [Call rq] = (\<not> is_begin rq)"
| "paired (Call rq # Call rq' # es) = (\<not> is_begin rq \<and> paired (Call rq' # es))"
| "paired (Await rq # es) = False"

text \<open>The name under which a call creates (or re-submits) a resource.\<close>

fun created_name :: "event \<Rightarrow> string option" where
  "created_name (Call (ResourceGroupsCreateOrUpdate n _)) = Some n"
| "created_name (Call (StorageAccountsBeginCreate _ n _)) = Some n"
| "created_name (Call (VirtualNetworksBeginCreateOrUpdate _ n _)) = Some n"
| "created_name (Call (SubnetsBeginCreateOrUpdate _ _ n)) = Some n"
| "created_name (Call (NetworkInterfacesBeginCreateOrUpdate _ n _ _ _)) = Some n"
| "created_name (Call (VirtualMachinesBeginCreateOrUpdate _ n _)) = Some n"
| "created_name (Call (DisksBeginCreateOrUpdate _ n _)) = Some n"
| "created_name _ = None"

text \<open>
  A call that creates or re-submits a resource carries the name the script gives to that
  resource: a module constant, the literal of the data disk, or, for the machine object
  of the attach step and for the OS disk, the name of the object the service returned.
\<close>

fun named_by_script :: "env \<Rightarrow> draws \<Rightarrow> event \<Rightarrow> bool" where
  "named_by_script s g (Call (ResourceGroupsCreateOrUpdate n _)) = (n = GROUP_NAME g)"
| "named_by_script s g (Call (StorageAccountsBeginCreate grp n _)) =
     (grp = GROUP_NAME g \<and> n = STORAGE_ACCOUNT_NAME g)"
| "named_by_script s g (Call (VirtualNetworksBeginCreateOrUpdate grp n _)) =
     (grp = GROUP_NAME g \<and> n = VNET_NAME g)"
| "named_by_script s g (Call (SubnetsBeginCreateOrUpdate grp v n)) =
     (grp = GROUP_NAME g \<and> v = VNET_NAME g \<and> n = SUBNET_NAME g)"
| "named_by_script s g (Call (NetworkInterfacesBeginCreateOrUpdate grp n _ c _)) =
     (grp = GROUP_NAME g \<and> n = NIC_NAME g \<and> c = IP_CONFIG_NAME g)"
| "named_by_script s g (Call (VirtualMachinesBeginCreateOrUpdate grp n (Parameters p))) =
     (grp = GROUP_NAME g \<and> n = VM_NAME g \<and> computer_name p = VM_NAME g)"
| "named_by_script s g (Call (VirtualMachinesBeginCreateOrUpdate grp n (Tags _ _))) =
     (grp = GROUP_NAME g \<and> n = VM_NAME g)"
| "named_by_script s g (Call (VirtualMachinesBeginCreateOrUpdate grp n (Machine vm))) =
     (grp = GROUP_NAME g \<and>
      (vm = attach_data_disk (created_disk s) (got_vm s) \<and> n = vm_name (got_vm s)
       \<or> vm = detach_data_disk (attach_data_disk (created_disk s) (got_vm s))
           \<and> n = VM_NAME g))"
| "named_by_script s g (Call (DisksBeginCreateOrUpdate grp n (NewDisk _ _ _))) =
     (grp = GROUP_NAME g \<and> n = ''mydatadisk1'')"
| "named_by_script s g (Call (DisksBeginCreateOrUpdate grp n (DiskObject d))) =
     (grp = GROUP_NAME g \<and> n = disk_name (got_disk s) \<and> disk_name d = disk_name (got_disk s))"
| "named_by_script s g _ = True"



section \<open>Example inputs\<close>

definition example_draws :: draws where
  "example_draws = \<lparr>postfix = 250, haiku = ''wispysea1234'', uuid4 = ''0f8fad5b''\<rparr>"

definition example_config :: config where
  "example_config =
     [''resourceManagerUrl'' \<mapsto> ''https://management.local'',
      ''subscriptionId'' \<mapsto> ''sub'',
      ''location'' \<mapsto> ''local'',
      ''clientId'' \<mapsto> ''app'',
      ''clientSecret'' \<mapsto> ''secret'',
      ''tenantId'' \<mapsto> ''tenant'']"

definition example_vm :: virtual_machine where
  "example_vm =
     \<lparr>vm_name = VM_NAME example_draws,
      vm_storage_profile = \<lparr>os_disk_name = ''osdisk1'', data_disks = []\<rparr>\<rparr>"

text \<open>A service that answers every call, and leaves the size of the OS disk out.\<close>

definition service_ok :: env where
  "service_ok =
     \<lparr>raises = (\<lambda>_. None),
      subnet_info = \<lparr>subnet_id = ''subnet-id''\<rparr>,
      created_nic = \<lparr>nic_id = ''nic-id''\<rparr>,
      created_disk = \<lparr>disk_id = ''disk-id'', disk_name = ''mydatadisk1'', disk_size_gb = Some 1\<rparr>,
      got_vm = example_vm,
      updated_vm = example_vm,
      got_disk = \<lparr>disk_id = ''osdisk-id'', disk_name = ''osdisk1'', disk_size_gb = None\<rparr>\<rparr>"

text \<open>The same service, except that listing the machines raises an error that is no CloudError.\<close>

definition service_listing_fails :: env where
  "service_listing_fails =
     service_ok\<lparr>raises := (\<lambda>ev. if ev = Call VirtualMachinesListAll then Some OtherError else None)\<rparr>"

text \<open>The same service, except that the virtual network cannot be created.\<close>

definition service_vnet_fails :: env where
  "service_vnet_fails =
     service_ok\<lparr>raises := (\<lambda>ev. case ev of
        Await (VirtualNetworksBeginCreateOrUpdate _ _ _) \<Rightarrow> Some CloudError | _ \<Rightarrow> None)\<rparr>"

text \<open>The same service, except that it reports a size of 128 GB for the OS disk.\<close>

definition service_sized :: env where
  "service_sized =
     service_ok\<lparr>got_disk :=
       \<lparr>disk_id = ''osdisk-id'', disk_name = ''osdisk1'', disk_size_gb = Some 128\<rparr>\<rparr>"


definition other_disk :: data_disk where
  "other_disk = \<lparr>lun = 0, dd_name = ''scratch'', create_option = Empty, managed_disk_id = ''d0''\<rparr>"

definition same_name_disk :: data_disk where
  "same_name_disk =
     \<lparr>lun = 3, dd_name = ''mydatadisk1'', create_option = Attach, managed_disk_id = ''d1''\<rparr>"

section \<open>What a run does\<close>

subsection \<open>The script is followed up to the first failure\<close>

lemma bnd_ret: "bnd (ret v) f = f v"
  by (simp add: bnd_def ret_def split: prod.splits)

lemma bnd_lift_Inr: "bnd (lift (Inr v)) f = f v"
  by (simp add: bnd_def lift_def split: prod.splits)

lemma bnd_assoc: "bnd (bnd m f) h = bnd m (\<lambda>x. bnd (f x) h)"
  by (simp add: bnd_def split: prod.splits sum.splits)

lemma follows_last: "follows (perform s ev v) (raises s) [ev] v"
  by (simp add: follows_def perform_def split: option.splits)

lemma follows_step:
  "follows (f v) (raises s) es w \<Longrightarrow> follows (bnd (perform s ev v) f) (raises s) (ev # es) w"
  by (simp add: follows_def bnd_def perform_def split: option.splits)

lemma linux_ref: "subscript VM_REFERENCE ''linux'' = ret linux_image"
  by (simp add: subscript_def VM_REFERENCE_def linux_image_def)

lemma windows_ref: "subscript VM_REFERENCE ''windows'' = ret windows_image"
  by (simp add: subscript_def VM_REFERENCE_def windows_image_def)

lemma resize_os_disk_Inr: "resize_os_disk d = Inr (resized d)"
  by (simp add: resize_os_disk_def resized_def falsy_def iadd_def Let_def split: option.splits)

lemma create_nic_follows:
  "follows (create_nic s g L) (raises s) (nic_script s g L) (created_nic s)"
  unfolding create_nic_def nic_script_def begin_op_def result_def
  by (intro follows_step follows_last)

lemma try_body_follows:
  "follows (try_body s g L) (raises s) (body_script s g L) ()"
  unfolding try_body_def create_nic_def body_script_def nic_script_def begin_op_def result_def
    Let_def linux_ref windows_ref resize_os_disk_Inr append_Cons append_Nil
  apply (simp only: bnd_assoc bnd_ret bnd_lift_Inr)
  apply (intro follows_step follows_last)
  done

lemma finally_follows:
  "follows (finally_block s g) (raises s) (final_script g) ()"
  unfolding finally_block_def final_script_def begin_op_def result_def
  by (intro follows_step follows_last)

lemma trace_try_body: "trace (try_body s g L) = run_until (raises s) (body_script s g L)"
  using try_body_follows [of s g L] by (simp add: follows_def trace_def)

lemma outcome_try_body:
  "outcome (try_body s g L) =
     (case failure (raises s) (body_script s g L) of Some e \<Rightarrow> Inl e | None \<Rightarrow> Inr ())"
  using try_body_follows [of s g L] by (simp add: follows_def outcome_def)

lemma trace_finally: "trace (finally_block s g) = run_until (raises s) (final_script g)"
  using finally_follows [of s g] by (simp add: follows_def trace_def)

lemma outcome_finally:
  "outcome (finally_block s g) =
     (case failure (raises s) (final_script g) of Some e \<Rightarrow> Inl e | None \<Rightarrow> Inr ())"
  using finally_follows [of s g] by (simp add: follows_def outcome_def)

lemma subscript_Some: "d k = Some v \<Longrightarrow> subscript d k = ret v"
  by (simp add: subscript_def)

lemma bnd_perform_None:
  "raises s ev = None \<Longrightarrow> bnd (perform s ev v) f = (case f v of (r, tr) \<Rightarrow> (r, ev # tr))"
  by (simp add: bnd_def perform_def)

lemma try_except_else_finally_eq:
  "try_except_else_finally body final =
     ((case outcome final of
         Inl e \<Rightarrow> Inl e
       | Inr _ \<Rightarrow> (case outcome body of
            Inr _ \<Rightarrow> Inr AllCompleted
          | Inl e \<Rightarrow> if e = CloudError then Inr OperationFailed else Inl e)),
      trace body @ trace final)"
  by (cases body; cases final)
    (simp add: try_except_else_finally_def outcome_def trace_def split: sum.splits)

lemma run_example_entered:
  assumes "config ''resourceManagerUrl'' = Some url"
    and "raises s (Call (GetCloudFromMetadataEndpoint url)) = None"
    and "config ''subscriptionId'' = Some a" and "config ''location'' = Some L"
    and "config ''clientId'' = Some c" and "config ''clientSecret'' = Some d"
    and "config ''tenantId'' = Some t"
    and "raises s (Call (ResourceGroupsCreateOrUpdate (GROUP_NAME g) L)) = None"
  shows "trace (run_example s g config) =
           setup_script url g L @ run_until (raises s) (body_script s g L)
             @ run_until (raises s) (final_script g)"
    and "outcome (run_example s g config) =
           (case failure (raises s) (final_script g) of
              Some e \<Rightarrow> Inl e
            | None \<Rightarrow>
               (case failure (raises s) (body_script s g L) of
                  None \<Rightarrow> Inr AllCompleted
                | Some e \<Rightarrow> if e = CloudError then Inr OperationFailed else Inl e))"
proof -
  have run: "run_example s g config =
      (case try_except_else_finally (try_body s g L) (finally_block s g) of
         (r, tr) \<Rightarrow> (r, setup_script url g L @ tr))"
    using assms by (simp add: run_example_def subscript_Some bnd_ret bnd_perform_None
        setup_script_def split: prod.splits)
  show "trace (run_example s g config) =
           setup_script url g L @ run_until (raises s) (body_script s g L)
             @ run_until (raises s) (final_script g)"
    unfolding run try_except_else_finally_eq
    by (simp add: trace_def trace_try_body [unfolded trace_def] trace_finally [unfolded trace_def])
  show "outcome (run_example s g config) =
           (case failure (raises s) (final_script g) of
              Some e \<Rightarrow> Inl e
            | None \<Rightarrow>
               (case failure (raises s) (body_script s g L) of
                  None \<Rightarrow> Inr AllCompleted
                | Some e \<Rightarrow> if e = CloudError then Inr OperationFailed else Inl e))"
    unfolding run try_except_else_finally_eq
    by (simp add: outcome_def outcome_try_body [unfolded outcome_def]
        outcome_finally [unfolded outcome_def] split: option.splits)
qed

lemma run_example_cases:
  obtains (aborted) e where "outcome (run_example s g config) = Inl e"
      and "\<forall>ev \<in> set (trace (run_example s g config)).
             (\<exists>url. ev = Call (GetCloudFromMetadataEndpoint url)) \<or>
             (\<exists>L. ev = Call (ResourceGroupsCreateOrUpdate (GROUP_NAME g) L) \<and> raises s ev \<noteq> None)"
  | (entered) url L where "config ''location'' = Some L"
      and "raises s (Call (ResourceGroupsCreateOrUpdate (GROUP_NAME g) L)) = None"
      and "trace (run_example s g config) =
             setup_script url g L @ run_until (raises s) (body_script s g L)
               @ run_until (raises s) (final_script g)"
      and "outcome (run_example s g config) =
             (case failure (raises s) (final_script g) of
                Some e \<Rightarrow> Inl e
              | None \<Rightarrow>
                 (case failure (raises s) (body_script s g L) of
                    None \<Rightarrow> Inr AllCompleted
                  | Some e \<Rightarrow> if e = CloudError then Inr OperationFailed else Inl e))"
proof (cases "\<exists>url a L c d t. config ''resourceManagerUrl'' = Some url \<and>
    raises s (Call (GetCloudFromMetadataEndpoint url)) = None \<and>
    config ''subscriptionId'' = Some a \<and> config ''location'' = Some L \<and>
    config ''clientId'' = Some c \<and> config ''clientSecret'' = Some d \<and>
    config ''tenantId'' = Some t \<and>
    raises s (Call (ResourceGroupsCreateOrUpdate (GROUP_NAME g) L)) = None")
  case True
  then obtain url a L c d t where h: "config ''resourceManagerUrl'' = Some url"
    "raises s (Call (GetCloudFromMetadataEndpoint url)) = None"
    "config ''subscriptionId'' = Some a" "config ''location'' = Some L"
    "config ''clientId'' = Some c" "config ''clientSecret'' = Some d"
    "config ''tenantId'' = Some t"
    "raises s (Call (ResourceGroupsCreateOrUpdate (GROUP_NAME g) L)) = None"
    by blast
  show ?thesis
    by (rule entered [of L url]) (rule h run_example_entered [OF h])+
next
  case False
  then have "\<exists>e. outcome (run_example s g config) = Inl e \<and>
      (\<forall>ev \<in> set (trace (run_example s g config)).
             (\<exists>url. ev = Call (GetCloudFromMetadataEndpoint url)) \<or>
             (\<exists>L. ev = Call (ResourceGroupsCreateOrUpdate (GROUP_NAME g) L) \<and> raises s ev \<noteq> None))"
    by (auto simp add: run_example_def subscript_def bnd_ret bnd_def perform_def ret_def
        outcome_def trace_def split: option.splits)
  then show ?thesis using aborted by blast
qed

lemma set_run_until: "set (run_until r es) \<subseteq> set es"
  by (induction es) auto

lemma failure_None_iff: "failure r es = None \<longleftrightarrow> (\<forall>ev \<in> set es. r ev = None)"
  by (induction es) (auto split: option.splits)

lemma run_until_all: "failure r es = None \<Longrightarrow> run_until r es = es"
  by (induction es) (auto split: option.splits)

lemma run_until_first:
  "ev \<in> set (run_until r es) \<Longrightarrow>
     \<exists>post. run_until r es = takeWhile (\<lambda>e. e \<noteq> ev) es @ ev # post \<and>
       (\<forall>e \<in> set (takeWhile (\<lambda>e. e \<noteq> ev) es). r e = None)"
proof (induction es)
  case Nil
  then show ?case by simp
next
  case (Cons a es)
  show ?case
  proof (cases "a = ev")
    case True
    then show ?thesis by simp
  next
    case False
    with Cons.prems have ok: "r a = None" and mem: "ev \<in> set (run_until r es)"
      by (auto split: if_splits)
    from Cons.IH [OF mem] obtain post where
      "run_until r es = takeWhile (\<lambda>e. e \<noteq> ev) es @ ev # post"
      "\<forall>e \<in> set (takeWhile (\<lambda>e. e \<noteq> ev) es). r e = None"
      by blast
    with False ok show ?thesis by simp
  qed
qed

lemma run_until_next:
  "ev \<in> set (run_until r es) \<Longrightarrow> r ev = None \<Longrightarrow>
     run_until r es =
       takeWhile (\<lambda>e. e \<noteq> ev) es @ ev # run_until r (tl (dropWhile (\<lambda>e. e \<noteq> ev) es))"
proof (induction es)
  case Nil
  then show ?case by simp
next
  case (Cons a es)
  show ?case
  proof (cases "a = ev")
    case True
    with Cons.prems show ?thesis by simp
  next
    case False
    with Cons.prems have ok: "r a = None" and mem: "ev \<in> set (run_until r es)"
      by (auto split: if_splits)
    from Cons.IH [OF mem Cons.prems(2)] False ok show ?thesis by simp
  qed
qed

lemma run_until_final:
  "run_until (raises s) (final_script g) =
     Call (ResourceGroupsBeginDelete (GROUP_NAME g)) #
       (if raises s (Call (ResourceGroupsBeginDelete (GROUP_NAME g))) = None
        then [Await (ResourceGroupsBeginDelete (GROUP_NAME g))] else [])"
  by (simp add: final_script_def)

subsection \<open>The resource group is deleted on every exit\<close>

text \<open>
  Claim C1. In every run in which the call that creates the resource group is made and
  returns, whatever the body of the \<^verbatim>\<open>try\<close> statement did and however it ended (it
  returned, it raised CloudError, it raised anything else), the events of the body are
  followed by the \<^verbatim>\<open>begin_delete\<close> call for the resource group and, when that call
  returns its poller, by the \<^verbatim>\<open>.result()\<close> on it; nothing comes after. There is no
  poller to wait on when \<^verbatim>\<open>begin_delete\<close> itself raises. Only then does the run end:
  with what the deletion raised if it raised, else normally after a body that returned
  or raised CloudError, else with the other exception of the body.
\<close>

theorem cleanup_on_every_exit:
  assumes reached: "Call (ResourceGroupsCreateOrUpdate (GROUP_NAME g) L)
                      \<in> set (trace (run_example s g config))"
    and created: "raises s (Call (ResourceGroupsCreateOrUpdate (GROUP_NAME g) L)) = None"
  shows "(\<exists>before. trace (run_example s g config) =
           before @ trace (try_body s g L) @
             Call (ResourceGroupsBeginDelete (GROUP_NAME g)) #
               (if raises s (Call (ResourceGroupsBeginDelete (GROUP_NAME g))) = None
                then [Await (ResourceGroupsBeginDelete (GROUP_NAME g))] else []))
       \<and> outcome (run_example s g config) =
           (case outcome (finally_block s g) of
              Inl e \<Rightarrow> Inl e
            | Inr _ \<Rightarrow>
               (case outcome (try_body s g L) of
                  Inr _ \<Rightarrow> Inr AllCompleted
                | Inl e \<Rightarrow> if e = CloudError then Inr OperationFailed else Inl e))"
proof (cases rule: run_example_cases [of s g config])
  case (aborted e)
  with reached created show ?thesis by auto
next
  case (entered url L')
  have "Call (ResourceGroupsCreateOrUpdate (GROUP_NAME g) L) \<in> set (setup_script url g L')"
  proof -
    have "Call (ResourceGroupsCreateOrUpdate (GROUP_NAME g) L)
            \<notin> set (body_script s g L') \<union> set (final_script g)"
      by (simp add: body_script_def nic_script_def final_script_def)
    with reached entered(3) set_run_until [of "raises s" "body_script s g L'"]
      set_run_until [of "raises s" "final_script g"]
    show ?thesis by auto
  qed
  then have "L' = L" by (simp add: setup_script_def)
  with entered(3) entered(4) show ?thesis
    by (simp add: trace_try_body run_until_final outcome_try_body outcome_finally
        split: option.splits)
qed


lemma example_run_entered:
  assumes "raises s (Call (GetCloudFromMetadataEndpoint ''https://management.local'')) = None"
    and "raises s (Call (ResourceGroupsCreateOrUpdate (GROUP_NAME g) ''local'')) = None"
  shows "trace (run_example s g example_config) =
           setup_script ''https://management.local'' g ''local''
             @ run_until (raises s) (body_script s g ''local'')
             @ run_until (raises s) (final_script g)"
    and "outcome (run_example s g example_config) =
           (case failure (raises s) (final_script g) of
              Some e \<Rightarrow> Inl e
            | None \<Rightarrow>
               (case failure (raises s) (body_script s g ''local'') of
                  None \<Rightarrow> Inr AllCompleted
                | Some e \<Rightarrow> if e = CloudError then Inr OperationFailed else Inl e))"
proof -
  have k: "example_config ''resourceManagerUrl'' = Some ''https://management.local''"
    "example_config ''subscriptionId'' = Some ''sub''"
    "example_config ''location'' = Some ''local''"
    "example_config ''clientId'' = Some ''app''"
    "example_config ''clientSecret'' = Some ''secret''"
    "example_config ''tenantId'' = Some ''tenant''"
    by (simp_all add: example_config_def)
  show "trace (run_example s g example_config) =
           setup_script ''https://management.local'' g ''local''
             @ run_until (raises s) (body_script s g ''local'')
             @ run_until (raises s) (final_script g)"
    by (rule run_example_entered(1) [OF k(1) assms(1) k(2) k(3) k(4) k(5) k(6) assms(2)])
  show "outcome (run_example s g example_config) =
           (case failure (raises s) (final_script g) of
              Some e \<Rightarrow> Inl e
            | None \<Rightarrow>
               (case failure (raises s) (body_script s g ''local'') of
                  None \<Rightarrow> Inr AllCompleted
                | Some e \<Rightarrow> if e = CloudError then Inr OperationFailed else Inl e))"
    by (rule run_example_entered(2) [OF k(1) assms(1) k(2) k(3) k(4) k(5) k(6) assms(2)])
qed

lemma raises_listing_fails:
  "raises service_listing_fails ev =
     (if ev = Call VirtualMachinesListAll then Some OtherError else None)"
  by (simp add: service_listing_fails_def)

text \<open>
  A run in which listing the machines raises an error that no handler catches: the
  group is deleted, and the deletion waited for, all the same.
\<close>

theorem cleanup_on_every_exit_witness:
  "Call (ResourceGroupsCreateOrUpdate (GROUP_NAME example_draws) ''local'')
     \<in> set (trace (run_example service_listing_fails example_draws example_config))
   \<and> raises service_listing_fails
       (Call (ResourceGroupsCreateOrUpdate (GROUP_NAME example_draws) ''local'')) = None
   \<and> outcome (try_body service_listing_fails example_draws ''local'') = Inl OtherError
   \<and> outcome (finally_block service_listing_fails example_draws) = Inr ()
   \<and> outcome (run_example service_listing_fails example_draws example_config) = Inl OtherError
   \<and> (\<exists>before. trace (run_example service_listing_fails example_draws example_config) =
         before @ trace (try_body service_listing_fails example_draws ''local'') @
           [Call (ResourceGroupsBeginDelete (GROUP_NAME example_draws)),
            Await (ResourceGroupsBeginDelete (GROUP_NAME example_draws))])"
proof -
  have t: "trace (run_example service_listing_fails example_draws example_config) =
      setup_script ''https://management.local'' example_draws ''local''
        @ run_until (raises service_listing_fails)
            (body_script service_listing_fails example_draws ''local'')
        @ run_until (raises service_listing_fails) (final_script example_draws)"
    by (rule example_run_entered) (simp_all add: raises_listing_fails)
  have h1: "Call (ResourceGroupsCreateOrUpdate (GROUP_NAME example_draws) ''local'')
     \<in> set (trace (run_example service_listing_fails example_draws example_config))"
    unfolding t by (simp add: setup_script_def)
  have h2: "raises service_listing_fails
       (Call (ResourceGroupsCreateOrUpdate (GROUP_NAME example_draws) ''local'')) = None"
    by (simp add: raises_listing_fails)
  have h3: "outcome (try_body service_listing_fails example_draws ''local'') = Inl OtherError"
    by (simp add: outcome_try_body body_script_def nic_script_def raises_listing_fails)
  have h4: "outcome (finally_block service_listing_fails example_draws) = Inr ()"
    by (simp add: outcome_finally final_script_def raises_listing_fails)
  from cleanup_on_every_exit [OF h1 h2] h1 h2 h3 h4 show ?thesis
    by (simp add: raises_listing_fails)
qed

subsection \<open>The OS-disk size\<close>

lemma disk_name_resized: "disk_name (resized d) = disk_name d"
  by (simp add: resized_def)

lemma disk_update_in_run:
  assumes "Call (DisksBeginCreateOrUpdate grp n (DiskObject b))
             \<in> set (trace (run_example s g config))"
  shows "b = resized (got_disk s) \<and> n = disk_name (got_disk s) \<and> grp = GROUP_NAME g"
proof (cases rule: run_example_cases [of s g config])
  case (aborted e)
  with assms show ?thesis by auto
next
  case (entered url L)
  with assms set_run_until [of "raises s" "body_script s g L"]
    set_run_until [of "raises s" "final_script g"]
  have "Call (DisksBeginCreateOrUpdate grp n (DiskObject b))
      \<in> set (setup_script url g L) \<union> set (body_script s g L) \<union> set (final_script g)"
    by auto
  then show ?thesis
    by (auto simp add: setup_script_def body_script_def nic_script_def final_script_def
        resized_def)
qed

lemma resized_disk_submitted:
  assumes got: "Call (DisksGet grp n) \<in> set (trace (run_example s g config))"
    and ok: "raises s (Call (DisksGet grp n)) = None"
  shows "\<exists>pre post. trace (run_example s g config) =
           pre @ Call (DisksGet grp n)
             # Call (DisksBeginCreateOrUpdate (GROUP_NAME g) (disk_name (got_disk s))
                 (DiskObject (resized (got_disk s)))) # post"
proof (cases rule: run_example_cases [of s g config])
  case (aborted e)
  with got show ?thesis by auto
next
  case (entered url L)
  let ?ev = "Call (DisksGet grp n)"
  have "?ev \<notin> set (setup_script url g L)"
    by (simp add: setup_script_def)
  moreover have "?ev \<notin> set (run_until (raises s) (final_script g))"
    using set_run_until [of "raises s" "final_script g"] by (auto simp add: final_script_def)
  ultimately have m: "?ev \<in> set (run_until (raises s) (body_script s g L))"
    using got entered(3) by auto
  then have "?ev \<in> set (body_script s g L)"
    using set_run_until [of "raises s" "body_script s g L"] by blast
  then have e: "grp = GROUP_NAME g \<and> n = os_disk_name (vm_storage_profile (updated_vm s))"
    by (auto simp add: body_script_def nic_script_def)
  have "\<exists>rest. tl (dropWhile (\<lambda>e. e \<noteq> ?ev) (body_script s g L)) =
      Call (DisksBeginCreateOrUpdate (GROUP_NAME g) (disk_name (got_disk s))
             (DiskObject (resized (got_disk s)))) # rest"
    using e by (simp add: body_script_def nic_script_def disk_name_resized)
  then obtain rest where "tl (dropWhile (\<lambda>e. e \<noteq> ?ev) (body_script s g L)) =
      Call (DisksBeginCreateOrUpdate (GROUP_NAME g) (disk_name (got_disk s))
             (DiskObject (resized (got_disk s)))) # rest"
    by blast
  with run_until_next [OF m ok]
  have "\<exists>post. run_until (raises s) (body_script s g L) =
      takeWhile (\<lambda>e. e \<noteq> ?ev) (body_script s g L) @ ?ev
        # Call (DisksBeginCreateOrUpdate (GROUP_NAME g) (disk_name (got_disk s))
             (DiskObject (resized (got_disk s)))) # post"
    by simp
  then obtain post where "run_until (raises s) (body_script s g L) =
      takeWhile (\<lambda>e. e \<noteq> ?ev) (body_script s g L) @ ?ev
        # Call (DisksBeginCreateOrUpdate (GROUP_NAME g) (disk_name (got_disk s))
             (DiskObject (resized (got_disk s)))) # post"
    by blast
  with entered(3) have "trace (run_example s g config) =
      (setup_script url g L @ takeWhile (\<lambda>e. e \<noteq> ?ev) (body_script s g L)) @ ?ev
        # Call (DisksBeginCreateOrUpdate (GROUP_NAME g) (disk_name (got_disk s))
             (DiskObject (resized (got_disk s))))
        # (post @ run_until (raises s) (final_script g))"
    by simp
  then show ?thesis by blast
qed

text \<open>
  Claim C2. Whatever disk \<^verbatim>\<open>disks.get\<close> returns, the resize step does not raise.
  Whenever the \<^verbatim>\<open>disks.get\<close> call of the run has returned, the very next event of the
  run is the submission of the resized disk, under the name of the disk returned; and
  no other disk object is ever submitted. The size of the resized disk is 40 when the
  reported size is absent or zero, and \<open>k + 10\<close> when a positive size \<open>k\<close> is reported.
\<close>

theorem os_disk_resize_default_then_add:
  "\<exists>d'. resize_os_disk (got_disk s) = Inr d'
     \<and> (\<forall>grp n. Call (DisksGet grp n) \<in> set (trace (run_example s g config))
           \<and> raises s (Call (DisksGet grp n)) = None
         \<longrightarrow> (\<exists>pre post. trace (run_example s g config) =
               pre @ Call (DisksGet grp n)
                 # Call (DisksBeginCreateOrUpdate (GROUP_NAME g) (disk_name (got_disk s))
                     (DiskObject d')) # post))
     \<and> (\<forall>ev \<in> set (trace (run_example s g config)). \<forall>grp n b.
           ev = Call (DisksBeginCreateOrUpdate grp n (DiskObject b)) \<longrightarrow> b = d')
     \<and> (disk_size_gb (got_disk s) = None \<or> disk_size_gb (got_disk s) = Some 0
           \<longrightarrow> disk_size_gb d' = Some 40)
     \<and> (\<forall>k. disk_size_gb (got_disk s) = Some k \<and> 0 < k \<longrightarrow> disk_size_gb d' = Some (k + 10))"
proof (intro exI conjI)
  show "resize_os_disk (got_disk s) = Inr (resized (got_disk s))"
    by (rule resize_os_disk_Inr)
  show "\<forall>grp n. Call (DisksGet grp n) \<in> set (trace (run_example s g config))
           \<and> raises s (Call (DisksGet grp n)) = None
         \<longrightarrow> (\<exists>pre post. trace (run_example s g config) =
               pre @ Call (DisksGet grp n)
                 # Call (DisksBeginCreateOrUpdate (GROUP_NAME g) (disk_name (got_disk s))
                     (DiskObject (resized (got_disk s)))) # post)"
    using resized_disk_submitted by blast
  show "\<forall>ev \<in> set (trace (run_example s g config)). \<forall>grp n b.
           ev = Call (DisksBeginCreateOrUpdate grp n (DiskObject b)) \<longrightarrow> b = resized (got_disk s)"
    using disk_update_in_run by blast
  show "disk_size_gb (got_disk s) = None \<or> disk_size_gb (got_disk s) = Some 0
           \<longrightarrow> disk_size_gb (resized (got_disk s)) = Some 40"
    by (auto simp add: resized_def)
  show "\<forall>k. disk_size_gb (got_disk s) = Some k \<and> 0 < k
           \<longrightarrow> disk_size_gb (resized (got_disk s)) = Some (k + 10)"
    by (auto simp add: resized_def)
qed

lemma raises_ok: "raises service_ok ev = None"
  by (simp add: service_ok_def)

lemma example_run_ok:
  "trace (run_example service_ok g example_config) =
     setup_script ''https://management.local'' g ''local''
       @ body_script service_ok g ''local'' @ final_script g"
  "outcome (run_example service_ok g example_config) = Inr AllCompleted"
proof -
  have f: "failure (raises service_ok) es = None" for es
    by (simp add: failure_None_iff raises_ok)
  show "trace (run_example service_ok g example_config) =
     setup_script ''https://management.local'' g ''local''
       @ body_script service_ok g ''local'' @ final_script g"
    by (simp add: example_run_entered(1) raises_ok run_until_all f)
  show "outcome (run_example service_ok g example_config) = Inr AllCompleted"
    by (simp add: example_run_entered(2) raises_ok f)
qed

text \<open>
  A service that leaves the size out: the run submits the OS disk with 40 GB. A service
  that reports 128 GB: the resized disk has 138 GB.
\<close>

theorem os_disk_resize_default_then_add_witness:
  "(\<exists>d'. resize_os_disk (got_disk service_ok) = Inr d'
      \<and> Call (DisksBeginCreateOrUpdate (GROUP_NAME example_draws) ''osdisk1'' (DiskObject d'))
          \<in> set (trace (run_example service_ok example_draws example_config))
      \<and> Call (DisksGet (GROUP_NAME example_draws) ''osdisk1'')
          \<in> set (trace (run_example service_ok example_draws example_config))
      \<and> raises service_ok (Call (DisksGet (GROUP_NAME example_draws) ''osdisk1'')) = None
      \<and> disk_size_gb (got_disk service_ok) = None
      \<and> disk_size_gb d' = Some 40)
   \<and> (\<exists>d'. resize_os_disk (got_disk service_sized) = Inr d'
      \<and> disk_size_gb (got_disk service_sized) = Some 128
      \<and> disk_size_gb d' = Some 138)"
proof
  from os_disk_resize_default_then_add [of service_ok example_draws example_config]
  obtain d' where d: "resize_os_disk (got_disk service_ok) = Inr d'"
    "disk_size_gb (got_disk service_ok) = None \<or> disk_size_gb (got_disk service_ok) = Some 0
       \<longrightarrow> disk_size_gb d' = Some 40"
    by blast
  have n: "disk_size_gb (got_disk service_ok) = None"
    by (simp add: service_ok_def)
  have r: "d' = resized (got_disk service_ok)"
    using d(1) by (simp add: resize_os_disk_Inr)
  have "disk_name (resized (got_disk service_ok)) = ''osdisk1''"
    by (simp add: resized_def service_ok_def)
  then have "Call (DisksBeginCreateOrUpdate (GROUP_NAME example_draws) ''osdisk1'' (DiskObject d'))
          \<in> set (body_script service_ok example_draws ''local'')"
    unfolding r body_script_def by simp
  then have "Call (DisksBeginCreateOrUpdate (GROUP_NAME example_draws) ''osdisk1'' (DiskObject d'))
          \<in> set (trace (run_example service_ok example_draws example_config))"
    by (simp add: example_run_ok)
  moreover have "os_disk_name (vm_storage_profile (updated_vm service_ok)) = ''osdisk1''"
    by (simp add: service_ok_def example_vm_def)
  then have "Call (DisksGet (GROUP_NAME example_draws) ''osdisk1'')
          \<in> set (body_script service_ok example_draws ''local'')"
    unfolding body_script_def by simp
  then have "Call (DisksGet (GROUP_NAME example_draws) ''osdisk1'')
          \<in> set (trace (run_example service_ok example_draws example_config))"
    by (simp add: example_run_ok)
  moreover have "raises service_ok (Call (DisksGet (GROUP_NAME example_draws) ''osdisk1'')) = None"
    by (rule raises_ok)
  ultimately show "\<exists>d'. resize_os_disk (got_disk service_ok) = Inr d'
      \<and> Call (DisksBeginCreateOrUpdate (GROUP_NAME example_draws) ''osdisk1'' (DiskObject d'))
          \<in> set (trace (run_example service_ok example_draws example_config))
      \<and> Call (DisksGet (GROUP_NAME example_draws) ''osdisk1'')
          \<in> set (trace (run_example service_ok example_draws example_config))
      \<and> raises service_ok (Call (DisksGet (GROUP_NAME example_draws) ''osdisk1'')) = None
      \<and> disk_size_gb (got_disk service_ok) = None
      \<and> disk_size_gb d' = Some 40"
    using d n by blast
next
  from os_disk_resize_default_then_add [of service_sized example_draws example_config]
  obtain d' where d: "resize_os_disk (got_disk service_sized) = Inr d'"
    "\<forall>k. disk_size_gb (got_disk service_sized) = Some k \<and> 0 < k
       \<longrightarrow> disk_size_gb d' = Some (k + 10)"
    by blast
  have n: "disk_size_gb (got_disk service_sized) = Some 128"
    by (simp add: service_sized_def)
  with d(2) have "disk_size_gb d' = Some 138" by fastforce
  with d(1) n show "\<exists>d'. resize_os_disk (got_disk service_sized) = Inr d'
      \<and> disk_size_gb (got_disk service_sized) = Some 128
      \<and> disk_size_gb d' = Some 138"
    by blast
qed

subsection \<open>Attaching and detaching the data disk\<close>

lemma data_disks_set: "data_disks (vm_storage_profile (set_data_disks ds vm)) = ds"
  by (simp add: set_data_disks_def)

lemma detach_attach_list:
  "data_disks (vm_storage_profile (detach_data_disk (attach_data_disk d vm))) =
     detach_list (data_disks (vm_storage_profile vm))"
  by (simp add: detach_data_disk_def attach_data_disk_def data_disks_set detach_list_def
      attach_descriptor_def)

lemma detach_list_absent:
  "\<forall>x \<in> set ds. dd_name x \<noteq> ''mydatadisk1'' \<Longrightarrow> detach_list ds = ds"
  by (simp add: detach_list_def)

text \<open>
  Claim C3 as stated fails for a machine whose list already holds an entry named
  \<^verbatim>\<open>mydatadisk1\<close>: the detach step removes that entry together with the appended one,
  and the list after the round trip is empty.
\<close>

theorem attach_detach_same_name_counterexample:
  "mset (data_disks (vm_storage_profile
      (detach_data_disk (attach_data_disk (created_disk service_ok)
        (set_data_disks [same_name_disk] example_vm)))))
   \<noteq> mset (data_disks (vm_storage_profile (set_data_disks [same_name_disk] example_vm)))"
  by (simp add: detach_attach_list data_disks_set detach_list_def same_name_disk_def)

text \<open>
  Claim C3, amended. Attach followed by detach leaves the data-disk list of the machine
  as it was before the attach, without its entries named \<^verbatim>\<open>mydatadisk1\<close>. So for
  every initial list with no entry of that name the list, and the whole machine object,
  are exactly as before the attach, in the same order.
\<close>

theorem attach_detach_roundtrip:
  "data_disks (vm_storage_profile (detach_data_disk (attach_data_disk d vm))) =
     [x \<leftarrow> data_disks (vm_storage_profile vm). dd_name x \<noteq> ''mydatadisk1'']
   \<and> ((\<forall>x \<in> set (data_disks (vm_storage_profile vm)). dd_name x \<noteq> ''mydatadisk1'') \<longrightarrow>
        data_disks (vm_storage_profile (detach_data_disk (attach_data_disk d vm))) =
          data_disks (vm_storage_profile vm)
        \<and> detach_data_disk (attach_data_disk d vm) = vm)"
proof (intro conjI impI)
  show "data_disks (vm_storage_profile (detach_data_disk (attach_data_disk d vm))) =
     [x \<leftarrow> data_disks (vm_storage_profile vm). dd_name x \<noteq> ''mydatadisk1'']"
    by (simp add: detach_attach_list detach_list_def)
next
  assume a: "\<forall>x \<in> set (data_disks (vm_storage_profile vm)). dd_name x \<noteq> ''mydatadisk1''"
  then show l: "data_disks (vm_storage_profile (detach_data_disk (attach_data_disk d vm))) =
          data_disks (vm_storage_profile vm)"
    by (simp add: detach_attach_list detach_list_absent)
  have "detach_list (data_disks (vm_storage_profile (attach_data_disk d vm))) =
      data_disks (vm_storage_profile vm)"
    using a by (simp add: attach_data_disk_def data_disks_set detach_list_def
        attach_descriptor_def)
  then show "detach_data_disk (attach_data_disk d vm) = vm"
    by (simp add: detach_data_disk_def attach_data_disk_def set_data_disks_def)
qed

text \<open>A machine with one other data disk: the attach adds the descriptor, the detach takes it away.\<close>

theorem attach_detach_roundtrip_witness:
  "data_disks (vm_storage_profile (set_data_disks [other_disk] example_vm)) = [other_disk]
   \<and> dd_name other_disk \<noteq> ''mydatadisk1''
   \<and> data_disks (vm_storage_profile (attach_data_disk (created_disk service_ok)
        (set_data_disks [other_disk] example_vm)))
      = [other_disk, attach_descriptor (created_disk service_ok)]
   \<and> data_disks (vm_storage_profile (detach_data_disk
        (attach_data_disk (created_disk service_ok) (set_data_disks [other_disk] example_vm))))
      = [other_disk]"
proof -
  have n: "dd_name other_disk \<noteq> ''mydatadisk1''"
    by (simp add: other_disk_def)
  then have h: "\<forall>x \<in> set (data_disks (vm_storage_profile (set_data_disks [other_disk] example_vm))).
      dd_name x \<noteq> ''mydatadisk1''"
    by (simp add: data_disks_set)
  from attach_detach_roundtrip [of "created_disk service_ok" "set_data_disks [other_disk] example_vm"] h n
  show ?thesis
    by (simp add: data_disks_set attach_data_disk_def)
qed

subsection \<open>The detach step alone\<close>




subsection \<open>Creating the network interface\<close>

lemma prefix_run_until: "prefix (run_until r es) es"
  by (induction es) auto

lemma raises_vnet_fails:
  "raises service_vnet_fails ev =
     (case ev of Await (VirtualNetworksBeginCreateOrUpdate _ _ _) \<Rightarrow> Some CloudError | _ \<Rightarrow> None)"
  by (simp add: service_vnet_fails_def)

text \<open>
  Claim C4. The events of \<^verbatim>\<open>create_nic\<close> are an initial part of: call and wait for
  the virtual network, call and wait for the subnet, call and wait for the interface,
  in this order, cut after the first event that raises; so each creation is waited for
  before the next is issued. If the call that creates the virtual network raises, or
  the wait on it raises, \<^verbatim>\<open>create_nic\<close> raises that exception and has made no call for
  the subnet or the interface. If nothing raises it returns the interface of the last
  wait.
\<close>

theorem create_nic_order_and_fail_fast:
  "trace (create_nic s g L) = run_until (raises s) (nic_script s g L)
   \<and> prefix (trace (create_nic s g L))
       [Call (VirtualNetworksBeginCreateOrUpdate (GROUP_NAME g) (VNET_NAME g) L),
        Await (VirtualNetworksBeginCreateOrUpdate (GROUP_NAME g) (VNET_NAME g) L),
        Call (SubnetsBeginCreateOrUpdate (GROUP_NAME g) (VNET_NAME g) (SUBNET_NAME g)),
        Await (SubnetsBeginCreateOrUpdate (GROUP_NAME g) (VNET_NAME g) (SUBNET_NAME g)),
        Call (NetworkInterfacesBeginCreateOrUpdate (GROUP_NAME g) (NIC_NAME g) L
                (IP_CONFIG_NAME g) (subnet_id (subnet_info s))),
        Await (NetworkInterfacesBeginCreateOrUpdate (GROUP_NAME g) (NIC_NAME g) L
                (IP_CONFIG_NAME g) (subnet_id (subnet_info s)))]
   \<and> (\<forall>e. raises s (Call (VirtualNetworksBeginCreateOrUpdate (GROUP_NAME g) (VNET_NAME g) L))
            = Some e \<longrightarrow>
          create_nic s g L =
            (Inl e, [Call (VirtualNetworksBeginCreateOrUpdate (GROUP_NAME g) (VNET_NAME g) L)]))
   \<and> (\<forall>e. raises s (Call (VirtualNetworksBeginCreateOrUpdate (GROUP_NAME g) (VNET_NAME g) L))
            = None \<and>
          raises s (Await (VirtualNetworksBeginCreateOrUpdate (GROUP_NAME g) (VNET_NAME g) L))
            = Some e \<longrightarrow>
          create_nic s g L =
            (Inl e, [Call (VirtualNetworksBeginCreateOrUpdate (GROUP_NAME g) (VNET_NAME g) L),
                     Await (VirtualNetworksBeginCreateOrUpdate (GROUP_NAME g) (VNET_NAME g) L)]))
   \<and> ((\<forall>ev \<in> set (nic_script s g L). raises s ev = None) \<longrightarrow>
          create_nic s g L = (Inr (created_nic s), nic_script s g L))"
proof -
  note f = create_nic_follows [of s g L, unfolded follows_def]
  have t: "trace (create_nic s g L) = run_until (raises s) (nic_script s g L)"
    using f by (simp add: trace_def)
  have p: "prefix (trace (create_nic s g L)) (nic_script s g L)"
    unfolding t by (rule prefix_run_until)
  have a: "create_nic s g L =
      (Inl e, [Call (VirtualNetworksBeginCreateOrUpdate (GROUP_NAME g) (VNET_NAME g) L)])"
    if "raises s (Call (VirtualNetworksBeginCreateOrUpdate (GROUP_NAME g) (VNET_NAME g) L))
            = Some e" for e
    using f that by (simp add: nic_script_def)
  have b: "create_nic s g L =
            (Inl e, [Call (VirtualNetworksBeginCreateOrUpdate (GROUP_NAME g) (VNET_NAME g) L),
                     Await (VirtualNetworksBeginCreateOrUpdate (GROUP_NAME g) (VNET_NAME g) L)])"
    if "raises s (Call (VirtualNetworksBeginCreateOrUpdate (GROUP_NAME g) (VNET_NAME g) L))
            = None"
      "raises s (Await (VirtualNetworksBeginCreateOrUpdate (GROUP_NAME g) (VNET_NAME g) L))
            = Some e" for e
    using f that by (simp add: nic_script_def)
  have c: "create_nic s g L = (Inr (created_nic s), nic_script s g L)"
    if "\<forall>ev \<in> set (nic_script s g L). raises s ev = None"
  proof -
    from that have "failure (raises s) (nic_script s g L) = None"
      by (simp add: failure_None_iff)
    with f show ?thesis by (simp add: run_until_all)
  qed
  from t p a b c show ?thesis
    by (simp add: nic_script_def)
qed

text \<open>
  A service on which the virtual network cannot be created: two events, and CloudError
  is raised. A service that answers every call: all six events, and the interface.
\<close>

theorem create_nic_order_and_fail_fast_witness:
  "raises service_vnet_fails
      (Call (VirtualNetworksBeginCreateOrUpdate (GROUP_NAME example_draws)
         (VNET_NAME example_draws) ''local'')) = None
   \<and> raises service_vnet_fails
      (Await (VirtualNetworksBeginCreateOrUpdate (GROUP_NAME example_draws)
         (VNET_NAME example_draws) ''local'')) = Some CloudError
   \<and> create_nic service_vnet_fails example_draws ''local'' =
       (Inl CloudError,
        [Call (VirtualNetworksBeginCreateOrUpdate (GROUP_NAME example_draws)
           (VNET_NAME example_draws) ''local''),
         Await (VirtualNetworksBeginCreateOrUpdate (GROUP_NAME example_draws)
           (VNET_NAME example_draws) ''local'')])
   \<and> create_nic service_ok example_draws ''local'' =
       (Inr (created_nic service_ok), nic_script service_ok example_draws ''local'')"
proof -
  have h1: "raises service_vnet_fails
      (Call (VirtualNetworksBeginCreateOrUpdate (GROUP_NAME example_draws)
         (VNET_NAME example_draws) ''local'')) = None"
    by (simp add: raises_vnet_fails)
  have h2: "raises service_vnet_fails
      (Await (VirtualNetworksBeginCreateOrUpdate (GROUP_NAME example_draws)
         (VNET_NAME example_draws) ''local'')) = Some CloudError"
    by (simp add: raises_vnet_fails)
  have h3: "\<forall>ev \<in> set (nic_script service_ok example_draws ''local''). raises service_ok ev = None"
    by (simp add: raises_ok)
  from create_nic_order_and_fail_fast [of service_vnet_fails example_draws "''local''"]
    create_nic_order_and_fail_fast [of service_ok example_draws "''local''"] h1 h2 h3
  show ?thesis by simp
qed

subsection \<open>One group is created and one is deleted\<close>

lemma body_no_group_events:
  "ev \<in> set (body_script s g L) \<Longrightarrow> \<not> is_group_create ev \<and> \<not> is_group_delete ev"
  by (auto simp add: body_script_def nic_script_def)

lemma filter_run_until_body:
  "[ev \<leftarrow> run_until r (body_script s g L). is_group_create ev] = []"
  "[ev \<leftarrow> run_until r (body_script s g L). is_group_delete ev] = []"
  using set_run_until [of r "body_script s g L"] body_no_group_events [of _ s g L]
  by (auto simp add: filter_empty_conv)

text \<open>
  Claim C5. In every run of \<^verbatim>\<open>run_example\<close> that completes all its operations, the
  trace holds exactly one call that creates a resource group and exactly one call that
  deletes one, whatever the service answered for the resources inside the group.
\<close>

theorem one_group_create_one_group_delete:
  assumes "outcome (run_example s g config) = Inr AllCompleted"
  shows "length [ev \<leftarrow> trace (run_example s g config). is_group_create ev] = 1
       \<and> length [ev \<leftarrow> trace (run_example s g config). is_group_delete ev] = 1"
proof (cases rule: run_example_cases [of s g config])
  case (aborted e)
  with assms show ?thesis by simp
next
  case (entered url L)
  have c: "[ev \<leftarrow> setup_script url g L. is_group_create ev] =
      [Call (ResourceGroupsCreateOrUpdate (GROUP_NAME g) L)]"
    "[ev \<leftarrow> setup_script url g L. is_group_delete ev] = []"
    by (simp_all add: setup_script_def)
  have d: "[ev \<leftarrow> run_until (raises s) (final_script g). is_group_create ev] = []"
    "[ev \<leftarrow> run_until (raises s) (final_script g). is_group_delete ev] =
      [Call (ResourceGroupsBeginDelete (GROUP_NAME g))]"
    by (simp_all add: final_script_def)
  show ?thesis
    unfolding entered(3) filter_append c d filter_run_until_body by simp
qed

text \<open>The run against the service that answers every call: forty events, one create, one delete.\<close>

theorem one_group_create_one_group_delete_witness:
  "outcome (run_example service_ok example_draws example_config) = Inr AllCompleted
   \<and> length [ev \<leftarrow> trace (run_example service_ok example_draws example_config).
        is_group_create ev] = 1
   \<and> length [ev \<leftarrow> trace (run_example service_ok example_draws example_config).
        is_group_delete ev] = 1
   \<and> length (trace (run_example service_ok example_draws example_config)) = 40"
proof -
  have h: "outcome (run_example service_ok example_draws example_config) = Inr AllCompleted"
    by (rule example_run_ok)
  have l: "length (trace (run_example service_ok example_draws example_config)) = 40"
    by (simp add: example_run_ok setup_script_def body_script_def nic_script_def
        final_script_def)
  from one_group_create_one_group_delete [OF h] h l show ?thesis by simp
qed

subsection \<open>Traces in which every operation is waited for\<close>

lemma awaited_no_begin:
  "\<forall>ev \<in> set tr. \<forall>rq. ev = Call rq \<longrightarrow> \<not> is_begin rq \<Longrightarrow> awaited r tr"
  by (auto simp add: awaited_def)

lemma awaited_Nil: "awaited r []"
  by (simp add: awaited_def)

lemma awaited_failed: "r (Call rq) \<noteq> None \<Longrightarrow> awaited r [Call rq]"
  by (auto simp add: awaited_def Cons_eq_append_conv)

lemma awaited_pair: "awaited r [Call rq, Await rq]"
  by (auto simp add: awaited_def Cons_eq_append_conv)

lemma awaited_append:
  assumes "awaited r A" and "awaited r B"
  shows "awaited r (A @ B)"
  unfolding awaited_def
proof (intro allI impI)
  fix pre rq post
  assume h: "A @ B = pre @ Call rq # post \<and> is_begin rq \<and> r (Call rq) = None"
  then obtain us where
    "(A = pre @ us \<and> us @ B = Call rq # post) \<or> (A @ us = pre \<and> B = us @ Call rq # post)"
    by (auto simp add: append_eq_append_conv2)
  then show "\<exists>post'. post = Await rq # post'"
  proof
    assume c: "A = pre @ us \<and> us @ B = Call rq # post"
    show ?thesis
    proof (cases us)
      case Nil
      with c have "B = [] @ Call rq # post" by simp
      with assms(2) h show ?thesis unfolding awaited_def by blast
    next
      case (Cons u us')
      with c have "A = pre @ Call rq # us'" and p: "post = us' @ B" by simp_all
      with assms(1) h obtain q where "us' = Await rq # q" unfolding awaited_def by blast
      with p show ?thesis by simp
    qed
  next
    assume "A @ us = pre \<and> B = us @ Call rq # post"
    with assms(2) h show ?thesis unfolding awaited_def by blast
  qed
qed

lemma paired_awaited: "paired es \<Longrightarrow> awaited r (run_until r es)"
proof (induction es rule: paired.induct)
  case 1
  then show ?case by (simp add: awaited_def)
next
  case (2 rq rq' es)
  then have e: "rq' = rq" and ih: "awaited r (run_until r es)" by simp_all
  show ?case
  proof (cases "r (Call rq) = None")
    case True
    have "awaited r ([Call rq, Await rq] @ (if r (Await rq) = None then run_until r es else []))"
      by (rule awaited_append) (simp_all add: awaited_pair ih awaited_Nil)
    with True e show ?thesis by simp
  next
    case False
    then have "run_until r (Call rq # Await rq' # es) = [Call rq]" by simp
    moreover have "awaited r [Call rq]" using False by (rule awaited_failed)
    ultimately show ?thesis by simp
  qed
next
  case (3 rq)
  then show ?case by (simp add: awaited_no_begin)
next
  case (4 rq v va)
  then have nb: "\<not> is_begin rq" and ih: "awaited r (run_until r (Call v # va))" by simp_all
  have "awaited r ([Call rq] @ (if r (Call rq) = None then run_until r (Call v # va) else []))"
    by (rule awaited_append) (use nb ih in \<open>simp_all add: awaited_no_begin awaited_Nil\<close>)
  then show ?case by simp
next
  case (5 rq es)
  then show ?case by simp
qed

lemma paired_body: "paired (body_script s g L)"
  by (simp add: body_script_def nic_script_def)

lemma paired_final: "paired (final_script g)"
  by (simp add: final_script_def)

lemma awaited_run_example: "awaited (raises s) (trace (run_example s g config))"
proof (cases rule: run_example_cases [of s g config])
  case (aborted e)
  then show ?thesis by (intro awaited_no_begin) auto
next
  case (entered url L)
  have "awaited (raises s) (setup_script url g L)"
    by (intro awaited_no_begin) (auto simp add: setup_script_def)
  then show ?thesis
    unfolding entered(3)
    by (intro awaited_append paired_awaited paired_body paired_final)
qed

subsection \<open>Events of the body and what came before them\<close>

lemma run_example_body_event:
  assumes mem: "ev \<in> set (trace (run_example s g config))"
    and n1: "\<forall>url. ev \<noteq> Call (GetCloudFromMetadataEndpoint url)"
    and n2: "\<forall>n L. ev \<noteq> Call (ResourceGroupsCreateOrUpdate n L)"
    and n3: "\<forall>n. ev \<noteq> Call (ResourceGroupsBeginDelete n)"
    and n4: "\<forall>n. ev \<noteq> Await (ResourceGroupsBeginDelete n)"
  obtains url L post where "config ''location'' = Some L"
    and "ev \<in> set (body_script s g L)"
    and "trace (run_example s g config) =
           (setup_script url g L @ takeWhile (\<lambda>e. e \<noteq> ev) (body_script s g L)) @ ev # post"
    and "\<forall>e \<in> set (takeWhile (\<lambda>e. e \<noteq> ev) (body_script s g L)). raises s e = None"
proof (cases rule: run_example_cases [of s g config])
  case (aborted e)
  with mem n1 n2 show ?thesis by blast
next
  case (entered url L)
  have "ev \<notin> set (setup_script url g L)"
    using n1 n2 by (auto simp add: setup_script_def)
  moreover have "ev \<notin> set (run_until (raises s) (final_script g))"
    using n3 n4 set_run_until [of "raises s" "final_script g"]
    by (auto simp add: final_script_def)
  ultimately have m: "ev \<in> set (run_until (raises s) (body_script s g L))"
    using mem entered(3) by auto
  then have b: "ev \<in> set (body_script s g L)"
    using set_run_until [of "raises s" "body_script s g L"] by blast
  from run_until_first [OF m] obtain post where
    p: "run_until (raises s) (body_script s g L) =
          takeWhile (\<lambda>e. e \<noteq> ev) (body_script s g L) @ ev # post"
    and ok: "\<forall>e \<in> set (takeWhile (\<lambda>e. e \<noteq> ev) (body_script s g L)). raises s e = None"
    by blast
  show ?thesis
  proof (rule that [OF entered(1) b _ ok])
    show "trace (run_example s g config) =
        (setup_script url g L @ takeWhile (\<lambda>e. e \<noteq> ev) (body_script s g L))
          @ ev # post @ run_until (raises s) (final_script g)"
      by (simp add: entered(3) p)
  qed
qed

subsection \<open>Every operation is waited for before the next call\<close>

lemma resize_after_deallocate:
  assumes "Call (DisksBeginCreateOrUpdate grp n (DiskObject b))
             \<in> set (trace (run_example s g config))"
  shows "raises s (Await (VirtualMachinesBeginDeallocate (GROUP_NAME g) (VM_NAME g))) = None
       \<and> (\<exists>pre post. trace (run_example s g config) =
             pre @ Call (DisksBeginCreateOrUpdate grp n (DiskObject b)) # post
           \<and> Await (VirtualMachinesBeginDeallocate (GROUP_NAME g) (VM_NAME g)) \<in> set pre)"
proof -
  from assms obtain url L post where
    b: "Call (DisksBeginCreateOrUpdate grp n (DiskObject b)) \<in> set (body_script s g L)"
    and t: "trace (run_example s g config) =
           (setup_script url g L @
              takeWhile (\<lambda>e. e \<noteq> Call (DisksBeginCreateOrUpdate grp n (DiskObject b)))
                (body_script s g L))
           @ Call (DisksBeginCreateOrUpdate grp n (DiskObject b)) # post"
    and ok: "\<forall>e \<in> set (takeWhile
               (\<lambda>e. e \<noteq> Call (DisksBeginCreateOrUpdate grp n (DiskObject b)))
               (body_script s g L)). raises s e = None"
    by (rule run_example_body_event) simp_all
  have m: "Await (VirtualMachinesBeginDeallocate (GROUP_NAME g) (VM_NAME g))
      \<in> set (takeWhile (\<lambda>e. e \<noteq> Call (DisksBeginCreateOrUpdate grp n (DiskObject b)))
               (body_script s g L))"
    by (simp add: body_script_def nic_script_def)
  with ok have "raises s (Await (VirtualMachinesBeginDeallocate (GROUP_NAME g) (VM_NAME g))) = None"
    by blast
  moreover from m have "Await (VirtualMachinesBeginDeallocate (GROUP_NAME g) (VM_NAME g))
      \<in> set (setup_script url g L @
           takeWhile (\<lambda>e. e \<noteq> Call (DisksBeginCreateOrUpdate grp n (DiskObject b)))
             (body_script s g L))"
    by simp
  ultimately show ?thesis using t by blast
qed

text \<open>
  Claim C7. In the trace of \<^verbatim>\<open>run_example\<close>, every call that starts a long-running
  operation (storage account, network, subnet, interface, machine and disk
  create-or-update, deallocate, start, restart, power-off, machine delete, group delete)
  and returns its poller is followed at once by the \<^verbatim>\<open>.result()\<close> on that poller: no
  other call is issued in between. In particular, when the resized OS disk is submitted,
  the wait on the deallocation of the machine is among the events before it and has
  returned.
\<close>

theorem every_operation_awaited:
  "(\<forall>pre rq post.
      trace (run_example s g config) = pre @ Call rq # post \<and> is_begin rq
        \<and> raises s (Call rq) = None
      \<longrightarrow> (\<exists>post'. post = Await rq # post'))
   \<and> (\<forall>grp n b.
        Call (DisksBeginCreateOrUpdate grp n (DiskObject b))
          \<in> set (trace (run_example s g config))
        \<longrightarrow> raises s (Await (VirtualMachinesBeginDeallocate (GROUP_NAME g) (VM_NAME g))) = None
          \<and> (\<exists>pre post. trace (run_example s g config) =
                pre @ Call (DisksBeginCreateOrUpdate grp n (DiskObject b)) # post
              \<and> Await (VirtualMachinesBeginDeallocate (GROUP_NAME g) (VM_NAME g)) \<in> set pre))"
  using awaited_run_example [of s g config] resize_after_deallocate [of _ _ _ s g config]
  unfolding awaited_def by blast


text \<open>
  The run against the service that answers every call: the storage account is waited for
  right after its creation is started, and the OS disk is submitted after the
  deallocation has been waited for.
\<close>

theorem every_operation_awaited_witness:
  "trace (run_example service_ok example_draws example_config) =
     setup_script ''https://management.local'' example_draws ''local''
       @ Call (StorageAccountsBeginCreate (GROUP_NAME example_draws)
                 (STORAGE_ACCOUNT_NAME example_draws) ''local'')
       # (tl (body_script service_ok example_draws ''local'') @ final_script example_draws)
   \<and> is_begin (StorageAccountsBeginCreate (GROUP_NAME example_draws)
                 (STORAGE_ACCOUNT_NAME example_draws) ''local'')
   \<and> raises service_ok (Call (StorageAccountsBeginCreate (GROUP_NAME example_draws)
                 (STORAGE_ACCOUNT_NAME example_draws) ''local'')) = None
   \<and> (\<exists>post'. tl (body_script service_ok example_draws ''local'') @ final_script example_draws =
         Await (StorageAccountsBeginCreate (GROUP_NAME example_draws)
                 (STORAGE_ACCOUNT_NAME example_draws) ''local'') # post')
   \<and> Call (DisksBeginCreateOrUpdate (GROUP_NAME example_draws) ''osdisk1''
             (DiskObject (resized (got_disk service_ok))))
        \<in> set (trace (run_example service_ok example_draws example_config))
   \<and> raises service_ok (Await (VirtualMachinesBeginDeallocate (GROUP_NAME example_draws)
        (VM_NAME example_draws))) = None"
proof -
  have b: "body_script service_ok example_draws ''local'' =
      Call (StorageAccountsBeginCreate (GROUP_NAME example_draws)
                 (STORAGE_ACCOUNT_NAME example_draws) ''local'')
        # tl (body_script service_ok example_draws ''local'')"
    by (simp add: body_script_def)
  have t: "trace (run_example service_ok example_draws example_config) =
     setup_script ''https://management.local'' example_draws ''local''
       @ Call (StorageAccountsBeginCreate (GROUP_NAME example_draws)
                 (STORAGE_ACCOUNT_NAME example_draws) ''local'')
       # (tl (body_script service_ok example_draws ''local'') @ final_script example_draws)"
    unfolding example_run_ok(1) by (subst b) simp
  have n: "disk_name (resized (got_disk service_ok)) = ''osdisk1''"
    by (simp add: resized_def service_ok_def)
  have "Call (DisksBeginCreateOrUpdate (GROUP_NAME example_draws) ''osdisk1''
             (DiskObject (resized (got_disk service_ok))))
        \<in> set (body_script service_ok example_draws ''local'')"
    unfolding body_script_def using n by simp
  then have d: "Call (DisksBeginCreateOrUpdate (GROUP_NAME example_draws) ''osdisk1''
             (DiskObject (resized (got_disk service_ok))))
        \<in> set (trace (run_example service_ok example_draws example_config))"
    by (simp add: example_run_ok)
  from every_operation_awaited [of service_ok example_draws example_config] t d
  show ?thesis
    by (simp add: raises_ok)
qed

subsection \<open>The Windows machine takes the interface of the Linux machine\<close>

lemma windows_image_eq: "VM_REFERENCE ''windows'' = Some r \<longleftrightarrow> r = windows_image"
  by (auto simp add: VM_REFERENCE_def windows_image_def)

lemma image_parameters: "image (create_vm_parameters g a r L) = r"
  by (simp add: create_vm_parameters_def)

lemma linux_not_windows: "linux_image \<noteq> windows_image"
  by (simp add: linux_image_def windows_image_def)

lemma parameters_linux_windows:
  "create_vm_parameters g a linux_image L \<noteq> create_vm_parameters g' a' windows_image L'"
  using image_parameters [of g a linux_image L] image_parameters [of g' a' windows_image L']
    linux_not_windows by metis

lemma length_filter_prefix: "prefix xs ys \<Longrightarrow> length (filter P xs) \<le> length (filter P ys)"
  by (auto simp add: prefix_def)

lemma windows_call:
  assumes w: "Call (VirtualMachinesBeginCreateOrUpdate grp n (Parameters p))
                \<in> set (trace (run_example s g config))"
    and i: "image p = windows_image"
  obtains url L post where "config ''location'' = Some L"
    and "grp = GROUP_NAME g" and "n = VM_NAME g"
    and "p = create_vm_parameters g (nic_id (created_nic s)) windows_image L"
    and "trace (run_example s g config) =
           (setup_script url g L @ butlast (butlast (body_script s g L)))
             @ Call (VirtualMachinesBeginCreateOrUpdate grp n (Parameters p)) # post"
    and "\<forall>e \<in> set (butlast (butlast (body_script s g L))). raises s e = None"
proof -
  let ?ev = "Call (VirtualMachinesBeginCreateOrUpdate grp n (Parameters p))"
  from w obtain url L post where l: "config ''location'' = Some L"
    and b: "?ev \<in> set (body_script s g L)"
    and t: "trace (run_example s g config) =
           (setup_script url g L @ takeWhile (\<lambda>e. e \<noteq> ?ev) (body_script s g L)) @ ?ev # post"
    and ok: "\<forall>e \<in> set (takeWhile (\<lambda>e. e \<noteq> ?ev) (body_script s g L)). raises s e = None"
    by (rule run_example_body_event) simp_all
  from b i have e: "grp = GROUP_NAME g \<and> n = VM_NAME g
      \<and> p = create_vm_parameters g (nic_id (created_nic s)) windows_image L"
    using linux_not_windows
    by (auto simp add: body_script_def nic_script_def image_parameters)
  have tw: "takeWhile (\<lambda>e. e \<noteq> ?ev) (body_script s g L) = butlast (butlast (body_script s g L))"
    using e by (simp add: body_script_def nic_script_def parameters_linux_windows)
  show ?thesis
    using that [OF l _ _ _ t [unfolded tw] ok [unfolded tw]] e by blast
qed


lemma nic_create_at_most_once:
  "length [ev \<leftarrow> trace (run_example s g config). is_nic_create ev] \<le> 1"
proof (cases rule: run_example_cases [of s g config])
  case (aborted e)
  then have "[ev \<leftarrow> trace (run_example s g config). is_nic_create ev] = []"
    by (auto simp add: filter_empty_conv)
  then show ?thesis by simp
next
  case (entered url L)
  have "length [ev \<leftarrow> run_until (raises s) (body_script s g L). is_nic_create ev]
      \<le> length [ev \<leftarrow> body_script s g L. is_nic_create ev]"
    by (rule length_filter_prefix) (rule prefix_run_until)
  also have "\<dots> = 1"
    by (simp add: body_script_def nic_script_def)
  finally have b: "length [ev \<leftarrow> run_until (raises s) (body_script s g L). is_nic_create ev] \<le> 1" .
  have f: "[ev \<leftarrow> run_until (raises s) (final_script g). is_nic_create ev] = []"
    by (simp add: final_script_def)
  have u: "[ev \<leftarrow> setup_script url g L. is_nic_create ev] = []"
    by (simp add: setup_script_def)
  show ?thesis
    unfolding entered(3) filter_append f u using b by simp
qed

lemma nic_script_before_windows:
  "set (nic_script s g L) \<subseteq> set (butlast (butlast (body_script s g L)))"
  by (simp add: body_script_def nic_script_def)

lemma delete_before_windows:
  "Await (VirtualMachinesBeginDelete (GROUP_NAME g) (VM_NAME g))
     \<in> set (butlast (butlast (body_script s g L)))"
  by (simp add: body_script_def nic_script_def)


text \<open>
  Claim C6. Whenever the run issues the create-or-update with the Windows image
  reference, its parameters name as only network interface the identifier of the
  interface that \<^verbatim>\<open>create_nic\<close> returned; the events of \<^verbatim>\<open>create_nic\<close> and the
  wait on the deletion of the Linux machine come before it, that wait has returned, and
  the whole trace holds exactly one call that creates a network interface.
\<close>

theorem windows_vm_reuses_nic:
  assumes w: "Call (VirtualMachinesBeginCreateOrUpdate grp n (Parameters p))
                \<in> set (trace (run_example s g config))"
    and i: "VM_REFERENCE ''windows'' = Some (image p)"
  shows "network_interfaces p = [nic_id (created_nic s)]
       \<and> create_nic s g (vp_location p) = (Inr (created_nic s), nic_script s g (vp_location p))
       \<and> raises s (Await (VirtualMachinesBeginDelete (GROUP_NAME g) (VM_NAME g))) = None
       \<and> (\<exists>pre post. trace (run_example s g config) =
              pre @ Call (VirtualMachinesBeginCreateOrUpdate grp n (Parameters p)) # post
            \<and> set (trace (create_nic s g (vp_location p))) \<subseteq> set pre
            \<and> Await (VirtualMachinesBeginDelete (GROUP_NAME g) (VM_NAME g)) \<in> set pre)
       \<and> length [ev \<leftarrow> trace (run_example s g config). is_nic_create ev] = 1"
proof -
  from i have i': "image p = windows_image" by (simp add: windows_image_eq)
  from w i' obtain url L post where
    p: "p = create_vm_parameters g (nic_id (created_nic s)) windows_image L"
    and t: "trace (run_example s g config) =
           (setup_script url g L @ butlast (butlast (body_script s g L)))
             @ Call (VirtualMachinesBeginCreateOrUpdate grp n (Parameters p)) # post"
    and ok: "\<forall>e \<in> set (butlast (butlast (body_script s g L))). raises s e = None"
    by (rule windows_call)
  have l: "vp_location p = L" and ni: "network_interfaces p = [nic_id (created_nic s)]"
    by (simp_all add: p create_vm_parameters_def)
  from ok nic_script_before_windows [of s g L]
  have "\<forall>e \<in> set (nic_script s g L). raises s e = None" by blast
  then have f: "failure (raises s) (nic_script s g L) = None"
    by (simp add: failure_None_iff)
  with create_nic_follows [of s g L]
  have c: "create_nic s g L = (Inr (created_nic s), nic_script s g L)"
    by (simp add: follows_def run_until_all)
  from ok delete_before_windows [of g s L]
  have d: "raises s (Await (VirtualMachinesBeginDelete (GROUP_NAME g) (VM_NAME g))) = None"
    by blast
  have sub: "set (trace (create_nic s g L))
      \<subseteq> set (setup_script url g L @ butlast (butlast (body_script s g L)))"
    using nic_script_before_windows [of s g L] by (auto simp add: c trace_def)
  have del: "Await (VirtualMachinesBeginDelete (GROUP_NAME g) (VM_NAME g))
      \<in> set (setup_script url g L @ butlast (butlast (body_script s g L)))"
    using delete_before_windows [of g s L] by simp
  have "Call (NetworkInterfacesBeginCreateOrUpdate (GROUP_NAME g) (NIC_NAME g) L
                (IP_CONFIG_NAME g) (subnet_id (subnet_info s))) \<in> set (nic_script s g L)"
    by (simp add: nic_script_def)
  with sub t have "Call (NetworkInterfacesBeginCreateOrUpdate (GROUP_NAME g) (NIC_NAME g) L
                (IP_CONFIG_NAME g) (subnet_id (subnet_info s)))
      \<in> set [ev \<leftarrow> trace (run_example s g config). is_nic_create ev]"
    by (auto simp add: c trace_def)
  then have "0 < length [ev \<leftarrow> trace (run_example s g config). is_nic_create ev]"
    by (rule length_pos_if_in_set)
  with nic_create_at_most_once [of s g config]
  have one: "length [ev \<leftarrow> trace (run_example s g config). is_nic_create ev] = 1"
    by linarith
  from ni c d t sub del one show ?thesis
    unfolding l by blast
qed

text \<open>The run against the service that answers every call, whose interface is \<open>nic-id\<close>.\<close>

theorem windows_vm_reuses_nic_witness:
  "Call (VirtualMachinesBeginCreateOrUpdate (GROUP_NAME example_draws) (VM_NAME example_draws)
     (Parameters (create_vm_parameters example_draws ''nic-id'' windows_image ''local'')))
     \<in> set (trace (run_example service_ok example_draws example_config))
   \<and> VM_REFERENCE ''windows'' =
       Some (image (create_vm_parameters example_draws ''nic-id'' windows_image ''local''))
   \<and> nic_id (created_nic service_ok) = ''nic-id''
   \<and> network_interfaces (create_vm_parameters example_draws ''nic-id'' windows_image ''local'')
       = [''nic-id'']
   \<and> outcome (create_nic service_ok example_draws ''local'') = Inr \<lparr>nic_id = ''nic-id''\<rparr>
   \<and> length [ev \<leftarrow> trace (run_example service_ok example_draws example_config).
        is_nic_create ev] = 1"
proof -
  have n: "nic_id (created_nic service_ok) = ''nic-id''"
    "created_nic service_ok = \<lparr>nic_id = ''nic-id''\<rparr>"
    by (simp_all add: service_ok_def)
  have "Call (VirtualMachinesBeginCreateOrUpdate (GROUP_NAME example_draws) (VM_NAME example_draws)
     (Parameters (create_vm_parameters example_draws ''nic-id'' windows_image ''local'')))
     \<in> set (body_script service_ok example_draws ''local'')"
    unfolding body_script_def n by simp
  then have h1: "Call (VirtualMachinesBeginCreateOrUpdate (GROUP_NAME example_draws)
     (VM_NAME example_draws)
     (Parameters (create_vm_parameters example_draws ''nic-id'' windows_image ''local'')))
     \<in> set (trace (run_example service_ok example_draws example_config))"
    by (simp add: example_run_ok)
  have h2: "VM_REFERENCE ''windows'' =
       Some (image (create_vm_parameters example_draws ''nic-id'' windows_image ''local''))"
    by (simp add: windows_image_eq image_parameters)
  have l: "vp_location (create_vm_parameters example_draws ''nic-id'' windows_image ''local'')
      = ''local''"
    by (simp add: create_vm_parameters_def)
  from windows_vm_reuses_nic [OF h1 h2] h1 h2 n show ?thesis
    by (simp add: l outcome_def)
qed

subsection \<open>One machine at a time\<close>

lemma vm_name_attach: "vm_name (attach_data_disk d vm) = vm_name vm"
  by (simp add: attach_data_disk_def set_data_disks_def)






lemma computer_name_parameters: "computer_name (create_vm_parameters g a r L) = VM_NAME g"
  by (simp add: create_vm_parameters_def)

lemma named_by_script_in_run:
  assumes "ev \<in> set (setup_script url g L @ body_script s g L @ final_script g)"
  shows "named_by_script s g ev"
  using assms
  by (auto simp add: setup_script_def body_script_def nic_script_def final_script_def
      computer_name_parameters vm_name_attach disk_name_resized)



lemma format_postfix_example: "format_int (postfix example_draws) = ''250''"
  by (simp add: example_draws_def format_int_def digits.simps digit_char_def)





subsection \<open>The names of the resources\<close>

text \<open>
  Claim C8 as stated fails: with the suffix 250, the run creates the data disk under the
  literal name \<^verbatim>\<open>mydatadisk1\<close> and the storage account under the haikunator name, and
  neither name holds the digits of the suffix.
\<close>

theorem names_without_suffix_counterexample:
  "Call (DisksBeginCreateOrUpdate (GROUP_NAME example_draws) ''mydatadisk1''
      (NewDisk ''local'' 1 Empty))
     \<in> set (trace (run_example service_ok example_draws example_config))
   \<and> created_name (Call (DisksBeginCreateOrUpdate (GROUP_NAME example_draws) ''mydatadisk1''
        (NewDisk ''local'' 1 Empty))) = Some ''mydatadisk1''
   \<and> Call (StorageAccountsBeginCreate (GROUP_NAME example_draws) ''wispysea1234'' ''local'')
     \<in> set (trace (run_example service_ok example_draws example_config))
   \<and> created_name (Call (StorageAccountsBeginCreate (GROUP_NAME example_draws)
        ''wispysea1234'' ''local'')) = Some ''wispysea1234''
   \<and> format_int (postfix example_draws) = ''250''
   \<and> \<not> sublist (format_int (postfix example_draws)) ''mydatadisk1''
   \<and> \<not> sublist (format_int (postfix example_draws)) ''wispysea1234''"
proof -
  have h: "STORAGE_ACCOUNT_NAME example_draws = ''wispysea1234''"
    by (simp add: STORAGE_ACCOUNT_NAME_def example_draws_def)
  have "Call (DisksBeginCreateOrUpdate (GROUP_NAME example_draws) ''mydatadisk1''
      (NewDisk ''local'' 1 Empty))
     \<in> set (body_script service_ok example_draws ''local'')"
    "Call (StorageAccountsBeginCreate (GROUP_NAME example_draws) ''wispysea1234'' ''local'')
     \<in> set (body_script service_ok example_draws ''local'')"
    unfolding body_script_def h by simp_all
  then have m: "Call (DisksBeginCreateOrUpdate (GROUP_NAME example_draws) ''mydatadisk1''
      (NewDisk ''local'' 1 Empty))
     \<in> set (trace (run_example service_ok example_draws example_config))"
    "Call (StorageAccountsBeginCreate (GROUP_NAME example_draws) ''wispysea1234'' ''local'')
     \<in> set (trace (run_example service_ok example_draws example_config))"
    by (simp_all add: example_run_ok)
  have n: "\<not> sublist ''250'' ''mydatadisk1''" "\<not> sublist ''250'' ''wispysea1234''"
    by (simp_all add: sublist_Cons_right)
  from m n show ?thesis
    by (simp add: format_postfix_example)
qed

lemma created_names_in_run:
  assumes "ev \<in> set (setup_script url g L @ body_script s g L @ final_script g)"
    and "created_name ev = Some n"
  shows "n \<in> {GROUP_NAME g, VNET_NAME g, SUBNET_NAME g, NIC_NAME g, VM_NAME g,
              STORAGE_ACCOUNT_NAME g, ''mydatadisk1'', vm_name (got_vm s), disk_name (got_disk s)}"
  using assms
  by (auto simp add: setup_script_def body_script_def nic_script_def final_script_def
      vm_name_attach resized_def)

text \<open>
  Claim C8, amended. The names are module constants, computed once from the values drawn
  when the module is loaded. The names of the resource group, the virtual network, the
  subnet, the network interface and the virtual machine are each a fixed prefix followed
  by the decimal digits of the one drawn suffix, and every call that creates one of
  these resources carries that name. The storage account is created under the
  haikunator name, which is not computed from the suffix, and the data disk under the
  literal \<^verbatim>\<open>mydatadisk1\<close>. The attach step re-submits the machine under the name of
  the machine that \<^verbatim>\<open>virtual_machines.get\<close> returned, and the OS disk is submitted
  under the name of the disk that \<^verbatim>\<open>disks.get\<close> returned. No other name is used to
  create a resource.
\<close>

theorem resource_names:
  "(\<forall>ev \<in> set (trace (run_example s g config)). \<forall>n. created_name ev = Some n \<longrightarrow>
      n \<in> {GROUP_NAME g, VNET_NAME g, SUBNET_NAME g, NIC_NAME g, VM_NAME g,
           STORAGE_ACCOUNT_NAME g, ''mydatadisk1'', vm_name (got_vm s), disk_name (got_disk s)})
   \<and> (\<forall>ev \<in> set (trace (run_example s g config)). named_by_script s g ev)
   \<and> (\<forall>n \<in> {GROUP_NAME g, VNET_NAME g, SUBNET_NAME g, NIC_NAME g, VM_NAME g}.
        suffix (format_int (postfix g)) n \<and> sublist (format_int (postfix g)) n)
   \<and> GROUP_NAME g = ''azure-sample-group-virtual-machines'' @ format_int (postfix g)
   \<and> VNET_NAME g = ''azure-sample-vnet'' @ format_int (postfix g)
   \<and> SUBNET_NAME g = ''azure-sample-subnet'' @ format_int (postfix g)
   \<and> NIC_NAME g = ''azure-sample-nic'' @ format_int (postfix g)
   \<and> VM_NAME g = ''VmName'' @ format_int (postfix g)
   \<and> STORAGE_ACCOUNT_NAME g = haiku g
   \<and> (\<forall>p. STORAGE_ACCOUNT_NAME (g\<lparr>postfix := p\<rparr>) = STORAGE_ACCOUNT_NAME g)"
proof (intro conjI ballI allI impI)
  fix ev
  assume m: "ev \<in> set (trace (run_example s g config))"
  show "named_by_script s g ev"
  proof (cases rule: run_example_cases [of s g config])
    case (aborted e)
    with m show ?thesis by auto
  next
    case (entered url L)
    with m set_run_until [of "raises s" "body_script s g L"]
      set_run_until [of "raises s" "final_script g"]
    have "ev \<in> set (setup_script url g L @ body_script s g L @ final_script g)"
      by auto
    then show ?thesis by (rule named_by_script_in_run)
  qed
next
  fix ev n
  assume m: "ev \<in> set (trace (run_example s g config))" and c: "created_name ev = Some n"
  show "n \<in> {GROUP_NAME g, VNET_NAME g, SUBNET_NAME g, NIC_NAME g, VM_NAME g,
           STORAGE_ACCOUNT_NAME g, ''mydatadisk1'', vm_name (got_vm s), disk_name (got_disk s)}"
  proof (cases rule: run_example_cases [of s g config])
    case (aborted e)
    with m c show ?thesis by auto
  next
    case (entered url L)
    with m set_run_until [of "raises s" "body_script s g L"]
      set_run_until [of "raises s" "final_script g"]
    have "ev \<in> set (setup_script url g L @ body_script s g L @ final_script g)"
      by auto
    then show ?thesis using c by (rule created_names_in_run)
  qed
next
  fix n
  assume n: "n \<in> {GROUP_NAME g, VNET_NAME g, SUBNET_NAME g, NIC_NAME g, VM_NAME g}"
  then show "suffix (format_int (postfix g)) n"
    by (auto simp add: GROUP_NAME_def VNET_NAME_def SUBNET_NAME_def NIC_NAME_def VM_NAME_def
        suffix_def)
  then show "sublist (format_int (postfix g)) n"
    by (rule suffix_imp_sublist)
next
  show "GROUP_NAME g = ''azure-sample-group-virtual-machines'' @ format_int (postfix g)"
    by (simp add: GROUP_NAME_def)
  show "VNET_NAME g = ''azure-sample-vnet'' @ format_int (postfix g)"
    by (simp add: VNET_NAME_def)
  show "SUBNET_NAME g = ''azure-sample-subnet'' @ format_int (postfix g)"
    by (simp add: SUBNET_NAME_def)
  show "NIC_NAME g = ''azure-sample-nic'' @ format_int (postfix g)"
    by (simp add: NIC_NAME_def)
  show "VM_NAME g = ''VmName'' @ format_int (postfix g)"
    by (simp add: VM_NAME_def)
  show "STORAGE_ACCOUNT_NAME g = haiku g"
    by (simp add: STORAGE_ACCOUNT_NAME_def)
  show "STORAGE_ACCOUNT_NAME (g\<lparr>postfix := p\<rparr>) = STORAGE_ACCOUNT_NAME g" for p
    by (simp add: STORAGE_ACCOUNT_NAME_def)
qed

text \<open>With the suffix 250 the group is \<^verbatim>\<open>azure-sample-group-virtual-machines250\<close>.\<close>

theorem resource_names_witness:
  "Call (ResourceGroupsCreateOrUpdate (GROUP_NAME example_draws) ''local'')
     \<in> set (trace (run_example service_ok example_draws example_config))
   \<and> created_name (Call (ResourceGroupsCreateOrUpdate (GROUP_NAME example_draws) ''local''))
       = Some (GROUP_NAME example_draws)
   \<and> GROUP_NAME example_draws = ''azure-sample-group-virtual-machines250''
   \<and> suffix (format_int (postfix example_draws)) (GROUP_NAME example_draws)
   \<and> suffix (format_int (postfix example_draws)) (VM_NAME example_draws)
   \<and> named_by_script service_ok example_draws
        (Call (ResourceGroupsCreateOrUpdate (GROUP_NAME example_draws) ''local''))
   \<and> sublist (format_int (postfix example_draws)) (GROUP_NAME example_draws)
   \<and> STORAGE_ACCOUNT_NAME example_draws = ''wispysea1234''
   \<and> randint_ok example_draws"
proof -
  note t = resource_names [of service_ok example_draws example_config]
  from t have nb: "\<forall>ev \<in> set (trace (run_example service_ok example_draws example_config)).
      named_by_script service_ok example_draws ev"
    by blast
  from t have sf: "\<forall>n \<in> {GROUP_NAME example_draws, VNET_NAME example_draws,
      SUBNET_NAME example_draws, NIC_NAME example_draws, VM_NAME example_draws}.
        suffix (format_int (postfix example_draws)) n
        \<and> sublist (format_int (postfix example_draws)) n"
    by blast
  from t have st: "STORAGE_ACCOUNT_NAME example_draws = haiku example_draws"
    by blast
  have r: "randint_ok example_draws"
    by (simp add: randint_ok_def example_draws_def)
  have m: "Call (ResourceGroupsCreateOrUpdate (GROUP_NAME example_draws) ''local'')
     \<in> set (trace (run_example service_ok example_draws example_config))"
    by (simp add: example_run_ok setup_script_def)
  have c: "created_name (Call (ResourceGroupsCreateOrUpdate (GROUP_NAME example_draws) ''local''))
       = Some (GROUP_NAME example_draws)"
    by simp
  have n: "GROUP_NAME example_draws = ''azure-sample-group-virtual-machines250''"
    by (simp add: GROUP_NAME_def format_postfix_example)
  have h: "STORAGE_ACCOUNT_NAME example_draws = ''wispysea1234''"
    unfolding st by (simp add: example_draws_def)
  from nb m have d: "named_by_script service_ok example_draws
        (Call (ResourceGroupsCreateOrUpdate (GROUP_NAME example_draws) ''local''))"
    by blast
  from sf have s1: "suffix (format_int (postfix example_draws)) (GROUP_NAME example_draws)"
    and s2: "suffix (format_int (postfix example_draws)) (VM_NAME example_draws)"
    and s3: "sublist (format_int (postfix example_draws)) (GROUP_NAME example_draws)"
    by blast+
  from m c n s1 s2 d s3 h r show ?thesis by blast
qed

end
